theory Spec2Isabelle
  imports Complex_Main "HOL-Library.Sublist"
begin

section \<open>Python values\<close>

text \<open>
  A Python \<open>str\<close> is a sequence of Unicode code points, so it is modelled as a list of
  natural numbers; \<open>lit\<close> turns an ASCII literal of the source into such a string.
\<close>

type_synonym pystr = "nat list"

definition lit :: "string \<Rightarrow> pystr" where
  "lit s = map of_char s"

fun join :: "pystr \<Rightarrow> pystr list \<Rightarrow> pystr" where
  "join sep [] = []"
| "join sep [x] = x"
| "join sep (x # y # ys) = x @ sep @ join sep (y # ys)"

text \<open>\<open>str.isspace\<close> of CPython, per code point, and \<open>str.strip()\<close> with no argument.\<close>

definition py_isspace :: "nat \<Rightarrow> bool" where
  "py_isspace c \<longleftrightarrow>
     (9 \<le> c \<and> c \<le> 13) \<or> (28 \<le> c \<and> c \<le> 32) \<or> c = 133 \<or> c = 160 \<or> c = 5760 \<or>
     (8192 \<le> c \<and> c \<le> 8202) \<or> c = 8232 \<or> c = 8233 \<or> c = 8239 \<or> c = 8287 \<or> c = 12288"

definition strip_with :: "(nat \<Rightarrow> bool) \<Rightarrow> pystr \<Rightarrow> pystr" where
  "strip_with ws s = rev (dropWhile ws (rev (dropWhile ws s)))"

definition py_strip :: "pystr \<Rightarrow> pystr" where
  "py_strip s = strip_with py_isspace s"

text \<open>\<open>str(n)\<close> for a Python \<open>int\<close>: decimal digits, with a minus sign when negative.\<close>

fun nat_digits :: "nat \<Rightarrow> pystr" where
  "nat_digits n = (if n < 10 then [48 + n] else nat_digits (n div 10) @ [48 + n mod 10])"

declare nat_digits.simps [simp del]

definition int_str :: "int \<Rightarrow> pystr" where
  "int_str i = (if i < 0 then 45 # nat_digits (nat (- i)) else nat_digits (nat i))"

text \<open>
  A Python \<open>float\<close> is a binary64 value: a finite one is given by its exact rational
  value, the others are the two infinities and NaN.
\<close>

datatype pyfloat = Finite rat | PosInf | NegInf | NaN

text \<open>The values \<open>json.loads\<close> produces: \<open>None\<close>, \<open>bool\<close>, \<open>int\<close>, \<open>float\<close>, \<open>str\<close>,
  \<open>list\<close> and \<open>dict\<close> (keys in insertion order).\<close>

datatype json =
    JNull
  | JBool bool
  | JInt int
  | JFloat pyfloat
  | JStr pystr
  | JArr "json list"
  | JObj "(pystr \<times> json) list"

subsection \<open>HTTP responses and exceptions\<close>

text \<open>
  What the code reads of an \<open>httpx.Response\<close>: the status code, the body text, and the
  result of \<open>response.json()\<close>, which either is the decoded value or raises a
  \<open>ValueError\<close> (a \<open>JSONDecodeError\<close>) with a message.
\<close>

record response =
  status_code :: int
  text_body :: pystr
  json_body :: "pystr + json"

text \<open>
  The exceptions \<open>_handle_api_error\<close> tells apart: \<open>httpx.HTTPStatusError\<close> with its
  response, \<open>httpx.TimeoutException\<close>, \<open>ValueError\<close> with its message, and any other
  exception with its class name and message.
\<close>

datatype exn =
    HTTPStatusError response
  | TimeoutException
  | ValueError pystr
  | OtherError pystr pystr

subsection \<open>Runtime services\<close>

text \<open>
  Services of the Python runtime that are not written in this repository are taken as
  parameters: \<open>repr\<close> of a \<open>float\<close>, \<open>repr\<close> of a \<open>str\<close> (the quoting used when a
  string is printed inside a list or dict), \<open>format(v, spec)\<close> for the float format
  specifications \<open>.2f\<close> and \<open>,.2f\<close>, the true division \<open>a / b\<close>, \<open>json.dumps\<close> with
  \<open>indent=2, ensure_ascii=False\<close>, and the conversion \<open>int(v * 1_000_000)\<close> of a display
  amount to micro-units. None of them touches the network or the client.
\<close>

record pyrt =
  float_repr :: "pyfloat \<Rightarrow> pystr"
  str_repr :: "pystr \<Rightarrow> pystr"
  format_spec :: "json \<Rightarrow> pystr \<Rightarrow> exn + pystr"
  truediv :: "json \<Rightarrow> json \<Rightarrow> exn + json"
  json_dumps :: "json \<Rightarrow> pystr"
  micros :: "json \<Rightarrow> exn + json"

fun py_repr :: "pyrt \<Rightarrow> json \<Rightarrow> pystr" where
  "py_repr rt JNull = lit ''None''"
| "py_repr rt (JBool b) = (if b then lit ''True'' else lit ''False'')"
| "py_repr rt (JInt i) = int_str i"
| "py_repr rt (JFloat f) = float_repr rt f"
| "py_repr rt (JStr s) = str_repr rt s"
| "py_repr rt (JArr xs) = lit ''['' @ join (lit '', '') (map (py_repr rt) xs) @ lit '']''"
| "py_repr rt (JObj kvs) =
     lit ''{'' @ join (lit '', '')
       (map (\<lambda>kv. str_repr rt (fst kv) @ lit '': '' @ py_repr rt (snd kv)) kvs) @ lit ''}''"

text \<open>\<open>str(v)\<close>, which is also what an f-string field \<open>{v}\<close> renders.\<close>

definition py_str :: "pyrt \<Rightarrow> json \<Rightarrow> pystr" where
  "py_str rt v = (case v of JStr s \<Rightarrow> s | _ \<Rightarrow> py_repr rt v)"

text \<open>
  A runtime to evaluate the model at concrete inputs that use none of these services:
  strings are quoted plainly, and the float services and \<open>json.dumps\<close> are not
  interpreted.
\<close>

definition sample_rt :: pyrt where
  "sample_rt =
     \<lparr>float_repr = (\<lambda>f. lit ''<float>''),
      str_repr = (\<lambda>s. lit [CHR 39] @ s @ lit [CHR 39]),
      format_spec = (\<lambda>v spec. Inr (lit ''<float>'')),
      truediv = (\<lambda>a b. Inr (JFloat NaN)),
      json_dumps = (\<lambda>v. lit ''<json>''),
      micros = (\<lambda>v. Inr (JInt 0))\<rparr>"

text \<open>Truth value of an object, as \<open>if v:\<close> tests it.\<close>

fun truthy :: "json \<Rightarrow> bool" where
  "truthy JNull = False"
| "truthy (JBool b) = b"
| "truthy (JInt i) = (i \<noteq> 0)"
| "truthy (JFloat f) = (f \<noteq> Finite 0)"
| "truthy (JStr s) = (s \<noteq> [])"
| "truthy (JArr xs) = (xs \<noteq> [])"
| "truthy (JObj kvs) = (kvs \<noteq> [])"

fun type_name :: "json \<Rightarrow> pystr" where
  "type_name JNull = lit ''NoneType''"
| "type_name (JBool b) = lit ''bool''"
| "type_name (JInt i) = lit ''int''"
| "type_name (JFloat f) = lit ''float''"
| "type_name (JStr s) = lit ''str''"
| "type_name (JArr xs) = lit ''list''"
| "type_name (JObj kvs) = lit ''dict''"

section \<open>Python helpers that can raise\<close>

definition bindE :: "exn + 'a \<Rightarrow> ('a \<Rightarrow> exn + 'b) \<Rightarrow> exn + 'b" where
  "bindE m f = (case m of Inl e \<Rightarrow> Inl e | Inr x \<Rightarrow> f x)"

definition attribute_error :: "json \<Rightarrow> pystr \<Rightarrow> exn" where
  "attribute_error v a =
     OtherError (lit ''AttributeError'')
       (lit [CHR 39] @ type_name v @ lit '' object has no attribute '' @ lit [CHR 39] @ a @ lit [CHR 39])"

text \<open>\<open>d.get(k, default)\<close>: only a \<open>dict\<close> has the method.\<close>

definition py_get :: "json \<Rightarrow> pystr \<Rightarrow> json \<Rightarrow> exn + json" where
  "py_get d k dflt =
     (case d of
        JObj kvs \<Rightarrow> Inr (case map_of kvs k of Some v \<Rightarrow> v | None \<Rightarrow> dflt)
      | _ \<Rightarrow> Inl (attribute_error d (lit ''get'')))"

text \<open>\<open>response.raise_for_status()\<close> raises unless the status is 2xx.\<close>

definition raise_for_status :: "response \<Rightarrow> exn + unit" where
  "raise_for_status r =
     (if 200 \<le> status_code r \<and> status_code r \<le> 299 then Inr () else Inl (HTTPStatusError r))"

definition response_json :: "response \<Rightarrow> exn + json" where
  "response_json r = (case json_body r of Inl msg \<Rightarrow> Inl (ValueError msg) | Inr j \<Rightarrow> Inr j)"

section \<open>The API client\<close>

definition YANDEX_DIRECT_API_URL :: pystr where
  "YANDEX_DIRECT_API_URL = lit ''https://api.direct.yandex.com/json/v5''"

definition YANDEX_DIRECT_API_URL_V501 :: pystr where
  "YANDEX_DIRECT_API_URL_V501 = lit ''https://api.direct.yandex.com/json/v501''"

definition YANDEX_DIRECT_SANDBOX_URL :: pystr where
  "YANDEX_DIRECT_SANDBOX_URL = lit ''https://api-sandbox.direct.yandex.com/json/v5''"

definition YANDEX_METRIKA_API_URL :: pystr where
  "YANDEX_METRIKA_API_URL = lit ''https://api-metrika.yandex.net''"

definition DEFAULT_TIMEOUT :: nat where
  "DEFAULT_TIMEOUT = 30"

record YandexAPIClient =
  direct_token :: pystr
  metrika_token :: pystr
  unified_token :: pystr
  client_login :: pystr
  use_sandbox :: bool

definition get_direct_token :: "YandexAPIClient \<Rightarrow> pystr" where
  "get_direct_token c = (if direct_token c \<noteq> [] then direct_token c else unified_token c)"

definition get_metrika_token :: "YandexAPIClient \<Rightarrow> pystr" where
  "get_metrika_token c = (if metrika_token c \<noteq> [] then metrika_token c else unified_token c)"

definition get_direct_url :: "YandexAPIClient \<Rightarrow> bool \<Rightarrow> pystr" where
  "get_direct_url c use_v501 =
     (if use_sandbox c then YANDEX_DIRECT_SANDBOX_URL
      else if use_v501 then YANDEX_DIRECT_API_URL_V501 else YANDEX_DIRECT_API_URL)"

text \<open>
  One HTTP request as \<open>httpx\<close> is asked to send it, and what comes back: a response, or
  an exception of the transport (a timeout, a connection error).
\<close>

record request =
  req_method :: pystr
  req_url :: pystr
  req_headers :: "(pystr \<times> pystr) list"
  req_params :: "json option"
  req_json :: "json option"
  req_timeout :: nat

datatype outcome = Responded response | Failed exn

text \<open>
  The state a call can touch: the process-wide client and the log of the requests that
  went to the network. The vendor is a function from requests to outcomes.
\<close>

record world =
  api_client :: YandexAPIClient
  sent :: "request list"

type_synonym network = "request \<Rightarrow> outcome"

definition send :: "network \<Rightarrow> request \<Rightarrow> world \<Rightarrow> outcome \<times> world" where
  "send net rq w = (net rq, w\<lparr>sent := sent w @ [rq]\<rparr>)"

definition direct_request ::
  "network \<Rightarrow> pystr \<Rightarrow> pystr \<Rightarrow> json \<Rightarrow> bool \<Rightarrow> world \<Rightarrow> (exn + json) \<times> world" where
  "direct_request net service method params use_v501 w =
     (let c = api_client w; token = get_direct_token c in
      if token = [] then
        (Inl (ValueError (lit ''Yandex Direct API token not configured. '' @
                          lit ''Set YANDEX_DIRECT_TOKEN or YANDEX_TOKEN environment variable.'')), w)
      else
        let url = get_direct_url c use_v501 @ lit ''/'' @ service;
            headers = [(lit ''Authorization'', lit ''Bearer '' @ token),
                       (lit ''Accept-Language'', lit ''ru''),
                       (lit ''Content-Type'', lit ''application/json'')]
                      @ (if client_login c \<noteq> [] then [(lit ''Client-Login'', client_login c)] else []);
            payload = JObj [(lit ''method'', JStr method), (lit ''params'', params)];
            rq = \<lparr>req_method = lit ''POST'', req_url = url, req_headers = headers,
                  req_params = None, req_json = Some payload, req_timeout = DEFAULT_TIMEOUT\<rparr>
        in case send net rq w of
             (Failed e, w') \<Rightarrow> (Inl e, w')
           | (Responded r, w') \<Rightarrow> (bindE (raise_for_status r) (\<lambda>_. response_json r), w'))"

definition metrika_request ::
  "network \<Rightarrow> pystr \<Rightarrow> pystr \<Rightarrow> json option \<Rightarrow> json option \<Rightarrow> world \<Rightarrow> (exn + json) \<times> world" where
  "metrika_request net endpoint method params data w =
     (let token = get_metrika_token (api_client w) in
      if token = [] then
        (Inl (ValueError (lit ''Yandex Metrika API token not configured. '' @
                          lit ''Set YANDEX_METRIKA_TOKEN or YANDEX_TOKEN environment variable.'')), w)
      else
        let url = YANDEX_METRIKA_API_URL @ endpoint;
            headers = [(lit ''Authorization'', lit ''OAuth '' @ token),
                       (lit ''Content-Type'', lit ''application/json'')];
            rq = \<lparr>req_method = method, req_url = url, req_headers = headers,
                  req_params = params, req_json = None, req_timeout = DEFAULT_TIMEOUT\<rparr>;
            call = (if method = lit ''GET'' then Some rq
                    else if method = lit ''POST'' then Some (rq\<lparr>req_json := data\<rparr>)
                    else if method = lit ''PUT'' then Some (rq\<lparr>req_json := data\<rparr>)
                    else if method = lit ''DELETE'' then Some rq
                    else None)
        in case call of
             None \<Rightarrow> (Inl (ValueError (lit ''Unsupported HTTP method: '' @ method)), w)
           | Some rq' \<Rightarrow>
               (case send net rq' w of
                  (Failed e, w') \<Rightarrow> (Inl e, w')
                | (Responded r, w') \<Rightarrow>
                    (bindE (raise_for_status r)
                       (\<lambda>_. if status_code r = 204 then Inr (JObj [(lit ''success'', JBool True)])
                             else response_json r), w')))"

section \<open>The error classifier\<close>

text \<open>
  The \<open>try\<close> block of \<open>_handle_api_error\<close>: the vendor's error string and detail, when the
  body decodes and carries a non-empty \<open>error_string\<close>. Any exception inside the block is
  swallowed by \<open>except Exception: pass\<close>, which is the value \<open>None\<close> here.
\<close>

definition vendor_error :: "response \<Rightarrow> (json \<times> json) option" where
  "vendor_error r =
     (case bindE (response_json r) (\<lambda>error_body.
           bindE (py_get error_body (lit ''error'') (JObj [])) (\<lambda>err.
           bindE (py_get err (lit ''error_string'') (JStr [])) (\<lambda>error_msg.
           bindE (py_get error_body (lit ''error'') (JObj [])) (\<lambda>err2.
           bindE (py_get err2 (lit ''error_detail'') (JStr [])) (\<lambda>error_detail.
           Inr (error_msg, error_detail)))))) of
        Inl e \<Rightarrow> None
      | Inr (error_msg, error_detail) \<Rightarrow>
          (if truthy error_msg then Some (error_msg, error_detail) else None))"

definition error_messages :: "int \<rightharpoonup> pystr" where
  "error_messages = map_of
     [(400, lit ''Bad request. Check your parameters.''),
      (401, lit ''Authentication failed. Check your API token.''),
      (403, lit ''Access denied. Check permissions for this operation.''),
      (404, lit ''Resource not found. Check the ID.''),
      (429, lit ''Rate limit exceeded. Wait before making more requests.''),
      (500, lit ''Server error. Try again later.''),
      (503, lit ''Service unavailable. Try again later.'')]"

definition handle_api_error :: "pyrt \<Rightarrow> exn \<Rightarrow> pystr" where
  "handle_api_error rt e =
     (case e of
        HTTPStatusError r \<Rightarrow>
          (let status = status_code r in
           case vendor_error r of
             Some (error_msg, error_detail) \<Rightarrow>
               py_strip (lit ''API Error ('' @ int_str status @ lit ''): '' @ py_str rt error_msg
                         @ lit ''. '' @ py_str rt error_detail)
           | None \<Rightarrow>
               lit ''API Error: '' @
                 (case error_messages status of
                    Some m \<Rightarrow> m
                  | None \<Rightarrow> lit ''Request failed with status '' @ int_str status))
      | TimeoutException \<Rightarrow>
          lit ''Request timed out. The operation may still complete on the server.''
      | ValueError msg \<Rightarrow> lit ''Configuration Error: '' @ msg
      | OtherError name msg \<Rightarrow> lit ''Unexpected error: '' @ name @ lit '': '' @ msg)"

section \<open>Operations\<close>

datatype ResponseFormat = MARKDOWN | JSON

record GetCounterInput =
  counter_id :: int
  response_format :: ResponseFormat

definition metrika_delete_counter ::
  "pyrt \<Rightarrow> network \<Rightarrow> GetCounterInput \<Rightarrow> world \<Rightarrow> pystr \<times> world" where
  "metrika_delete_counter rt net params w =
     (case metrika_request net (lit ''/management/v1/counter/'' @ int_str (counter_id params))
             (lit ''DELETE'') None None w of
        (Inl e, w') \<Rightarrow> (handle_api_error rt e, w')
      | (Inr _, w') \<Rightarrow>
          (lit ''Counter '' @ int_str (counter_id params) @ lit '' deleted successfully.'', w'))"

text \<open>
  Iterating over an object (\<open>for x in v\<close>): a list gives its elements, a string its
  characters, a dict its keys; anything else raises \<open>TypeError\<close>.
\<close>

definition py_iter :: "json \<Rightarrow> exn + json list" where
  "py_iter v =
     (case v of
        JArr xs \<Rightarrow> Inr xs
      | JStr s \<Rightarrow> Inr (map (\<lambda>c. JStr [c]) s)
      | JObj kvs \<Rightarrow> Inr (map (\<lambda>kv. JStr (fst kv)) kvs)
      | _ \<Rightarrow> Inl (OtherError (lit ''TypeError'')
                 (lit [CHR 39] @ type_name v @ lit [CHR 39] @ lit '' object is not iterable'')))"

text \<open>
  \<open>v[k]\<close> with a string key. The code only subscripts a value after \<open>v.get(k)\<close> was
  truthy, so only the first branch is ever reached.
\<close>

definition py_getitem :: "json \<Rightarrow> pystr \<Rightarrow> exn + json" where
  "py_getitem v k =
     (case v of
        JObj kvs \<Rightarrow>
          (case map_of kvs k of
             Some x \<Rightarrow> Inr x
           | None \<Rightarrow> Inl (OtherError (lit ''KeyError'') (lit [CHR 39] @ k @ lit [CHR 39])))
      | _ \<Rightarrow> Inl (OtherError (lit ''TypeError'')
                 (lit [CHR 39] @ type_name v @ lit [CHR 39] @ lit '' object is not subscriptable'')))"

fun mapE :: "('a \<Rightarrow> exn + 'b) \<Rightarrow> 'a list \<Rightarrow> exn + 'b list" where
  "mapE f [] = Inr []"
| "mapE f (x # xs) = bindE (f x) (\<lambda>y. bindE (mapE f xs) (\<lambda>ys. Inr (y # ys)))"

text \<open>
  The loop of the update operations over \<open>UpdateResults\<close>: the message of every error,
  then \<open>"Warning: "\<close> and the message of every warning, item by item. The entries of
  \<open>errors\<close> are the objects that \<open>f"- {e}"\<close> renders later.
\<close>

definition update_item_issues :: "pyrt \<Rightarrow> json \<Rightarrow> exn + json list" where
  "update_item_issues rt r =
     bindE (py_get r (lit ''Errors'') JNull) (\<lambda>errs.
     bindE (if truthy errs then
              bindE (py_getitem r (lit ''Errors'')) (\<lambda>es.
              bindE (py_iter es) (\<lambda>el.
              mapE (\<lambda>e. py_get e (lit ''Message'') (JStr (lit ''Unknown error''))) el))
            else Inr []) (\<lambda>errors1.
     bindE (py_get r (lit ''Warnings'') JNull) (\<lambda>warns.
     bindE (if truthy warns then
              bindE (py_getitem r (lit ''Warnings'')) (\<lambda>ws.
              bindE (py_iter ws) (\<lambda>wl.
              mapE (\<lambda>x. bindE (py_get x (lit ''Message'') (JStr (lit ''Unknown warning'')))
                            (\<lambda>m. Inr (JStr (lit ''Warning: '' @ py_str rt m)))) wl))
            else Inr []) (\<lambda>errors2.
     Inr (errors1 @ errors2)))))"

definition update_issues :: "pyrt \<Rightarrow> json \<Rightarrow> exn + json list" where
  "update_issues rt update_results =
     bindE (py_iter update_results) (\<lambda>rs.
     bindE (mapE (update_item_issues rt) rs) (\<lambda>ls. Inr (concat ls)))"

text \<open>\<open>result.get("result", {}).get(key, [])\<close>.\<close>

definition result_list :: "json \<Rightarrow> pystr \<Rightarrow> exn + json" where
  "result_list result key =
     bindE (py_get result (lit ''result'') (JObj [])) (\<lambda>res. py_get res key (JArr []))"

definition bullet_lines :: "pyrt \<Rightarrow> json list \<Rightarrow> pystr" where
  "bullet_lines rt errors = join (lit [CHR 10]) (map (\<lambda>e. lit ''- '' @ py_str rt e) errors)"

text \<open>
  The validated input of the text-ad update. The schema strips whitespace from every
  string field (\<open>str_strip_whitespace=True\<close>) and then enforces the length caps; the
  validator trims the code points with the Unicode property \<open>White_Space\<close>.
\<close>

record UpdateTextAdInput =
  ad_id :: int
  title :: "pystr option"
  title2 :: "pystr option"
  text' :: "pystr option"
  href :: "pystr option"

definition schema_isspace :: "nat \<Rightarrow> bool" where
  "schema_isspace c \<longleftrightarrow>
     (9 \<le> c \<and> c \<le> 13) \<or> c = 32 \<or> c = 133 \<or> c = 160 \<or> c = 5760 \<or>
     (8192 \<le> c \<and> c \<le> 8202) \<or> c = 8232 \<or> c = 8233 \<or> c = 8239 \<or> c = 8287 \<or> c = 12288"

datatype ValidationError = StringTooLong pystr

definition validate_str :: "pystr \<Rightarrow> nat option \<Rightarrow> pystr option \<Rightarrow> ValidationError + pystr option" where
  "validate_str field max_length v =
     (case v of
        None \<Rightarrow> Inr None
      | Some s \<Rightarrow>
          (let s' = strip_with schema_isspace s in
           case max_length of
             Some n \<Rightarrow> if length s' > n then Inl (StringTooLong field) else Inr (Some s')
           | None \<Rightarrow> Inr (Some s')))"

definition validate_UpdateTextAdInput :: "UpdateTextAdInput \<Rightarrow> ValidationError + UpdateTextAdInput" where
  "validate_UpdateTextAdInput p =
     (case validate_str (lit ''title'') (Some 56) (title p) of Inl e \<Rightarrow> Inl e | Inr t1 \<Rightarrow>
      case validate_str (lit ''title2'') (Some 30) (title2 p) of Inl e \<Rightarrow> Inl e | Inr t2 \<Rightarrow>
      case validate_str (lit ''text'') (Some 81) (text' p) of Inl e \<Rightarrow> Inl e | Inr t3 \<Rightarrow>
      case validate_str (lit ''href'') None (href p) of Inl e \<Rightarrow> Inl e | Inr t4 \<Rightarrow>
        Inr (p\<lparr>title := t1, title2 := t2, text' := t3, href := t4\<rparr>))"

text \<open>Truth value of an \<open>Optional[str]\<close> field.\<close>

definition given :: "pystr option \<Rightarrow> bool" where
  "given v = (case v of None \<Rightarrow> False | Some s \<Rightarrow> s \<noteq> [])"

definition direct_update_ad ::
  "pyrt \<Rightarrow> network \<Rightarrow> UpdateTextAdInput \<Rightarrow> world \<Rightarrow> pystr \<times> world" where
  "direct_update_ad rt net params w =
     (let text_ad_update =
            (if given (title params) then [(lit ''Title'', JStr (the (title params)))] else []) @
            (if given (title2 params) then [(lit ''Title2'', JStr (the (title2 params)))] else []) @
            (if given (text' params) then [(lit ''Text'', JStr (the (text' params)))] else []) @
            (if given (href params) then [(lit ''Href'', JStr (the (href params)))] else [])
      in if text_ad_update = [] then (lit ''No fields specified for update.'', w)
         else
           let ad_update = JObj [(lit ''Id'', JInt (ad_id params)), (lit ''TextAd'', JObj text_ad_update)];
               request_params = JObj [(lit ''Ads'', JArr [ad_update])]
           in case direct_request net (lit ''ads'') (lit ''update'') request_params False w of
                (Inl e, w') \<Rightarrow> (handle_api_error rt e, w')
              | (Inr result, w') \<Rightarrow>
                  (case bindE (result_list result (lit ''UpdateResults'')) (update_issues rt) of
                     Inl e \<Rightarrow> (handle_api_error rt e, w')
                   | Inr errors \<Rightarrow>
                       if errors \<noteq> [] then
                         (lit ''Update completed with issues:'' @ lit [CHR 10] @ bullet_lines rt errors, w')
                       else
                         (lit ''Ad '' @ int_str (ad_id params) @
                          lit '' updated successfully. Note: Submit for moderation using direct_moderate_ads.'',
                          w')))"

section \<open>Response formatters\<close>

text \<open>\<open>len(v)\<close>, \<open>v[i]\<close> for an index below \<open>len(v)\<close>, the slice \<open>v[:n]\<close> and \<open>sep.join(v)\<close>.
  Subscripting a dict with a slice raises in every Python version; the message is the one
  of the versions before 3.12.\<close>

definition type_error :: "pystr \<Rightarrow> exn" where
  "type_error msg = OtherError (lit ''TypeError'') msg"

definition py_len :: "json \<Rightarrow> exn + nat" where
  "py_len v =
     (case v of
        JArr xs \<Rightarrow> Inr (length xs)
      | JStr s \<Rightarrow> Inr (length s)
      | JObj kvs \<Rightarrow> Inr (length kvs)
      | _ \<Rightarrow> Inl (type_error (lit ''object of type '' @ lit [CHR 39] @ type_name v @ lit [CHR 39]
                                @ lit '' has no len()'')))"

definition py_index :: "json \<Rightarrow> nat \<Rightarrow> exn + json" where
  "py_index v i =
     (case v of
        JArr xs \<Rightarrow> if i < length xs then Inr (xs ! i)
                   else Inl (OtherError (lit ''IndexError'') (lit ''list index out of range''))
      | JStr s \<Rightarrow> if i < length s then Inr (JStr [s ! i])
                  else Inl (OtherError (lit ''IndexError'') (lit ''string index out of range''))
      | JObj kvs \<Rightarrow> Inl (OtherError (lit ''KeyError'') (int_str (int i)))
      | _ \<Rightarrow> Inl (type_error (lit [CHR 39] @ type_name v @ lit [CHR 39]
                                @ lit '' object is not subscriptable'')))"

definition py_slice_to :: "nat \<Rightarrow> json \<Rightarrow> exn + json" where
  "py_slice_to n v =
     (case v of
        JArr xs \<Rightarrow> Inr (JArr (take n xs))
      | JStr s \<Rightarrow> Inr (JStr (take n s))
      | JObj kvs \<Rightarrow> Inl (type_error (lit ''unhashable type: '' @ lit [CHR 39] @ lit ''slice'' @ lit [CHR 39]))
      | _ \<Rightarrow> Inl (type_error (lit [CHR 39] @ type_name v @ lit [CHR 39]
                                @ lit '' object is not subscriptable'')))"

definition str_item :: "nat \<times> json \<Rightarrow> exn + pystr" where
  "str_item iv =
     (case snd iv of
        JStr s \<Rightarrow> Inr s
      | x \<Rightarrow> Inl (type_error (lit ''sequence item '' @ int_str (int (fst iv))
                                @ lit '': expected str instance, '' @ type_name x @ lit '' found'')))"

definition py_join :: "pystr \<Rightarrow> json \<Rightarrow> exn + pystr" where
  "py_join sep v =
     bindE (py_iter v) (\<lambda>xs.
     bindE (mapE str_item (enumerate 0 xs)) (\<lambda>ss. Inr (join sep ss)))"

text \<open>The f-string field \<open>{d.get(k, default)}\<close>.\<close>

definition fget :: "pyrt \<Rightarrow> json \<Rightarrow> pystr \<Rightarrow> json \<Rightarrow> exn + pystr" where
  "fget rt d k dflt = bindE (py_get d k dflt) (\<lambda>v. Inr (py_str rt v))"

definition NA :: json where
  "NA = JStr (lit ''N/A'')"

definition NL :: pystr where
  "NL = lit [CHR 10]"

definition campaign_lines :: "pyrt \<Rightarrow> json \<Rightarrow> exn + pystr list" where
  "campaign_lines rt camp =
     bindE (fget rt camp (lit ''Name'') (JStr (lit ''Unnamed''))) (\<lambda>name.
     bindE (fget rt camp (lit ''Id'') JNull) (\<lambda>ident.
     bindE (fget rt camp (lit ''Type'') NA) (\<lambda>ty.
     bindE (fget rt camp (lit ''State'') NA) (\<lambda>state.
     bindE (fget rt camp (lit ''Status'') NA) (\<lambda>status.
     bindE (py_get camp (lit ''DailyBudget'') JNull) (\<lambda>db.
     bindE (if truthy db then
              bindE (py_getitem camp (lit ''DailyBudget'')) (\<lambda>budget.
              bindE (py_get budget (lit ''Amount'') (JInt 0)) (\<lambda>a.
              bindE (truediv rt a (JInt 1000000)) (\<lambda>amount.
              bindE (format_spec rt amount (lit ''.2f'')) (\<lambda>amount_s.
              bindE (fget rt budget (lit ''Mode'') NA) (\<lambda>mode.
              Inr [lit ''- **Daily Budget**: '' @ amount_s @ lit '' ('' @ mode @ lit '')''])))))
            else Inr []) (\<lambda>budget_lines.
     bindE (py_get camp (lit ''Statistics'') JNull) (\<lambda>st.
     bindE (if truthy st then
              bindE (py_getitem camp (lit ''Statistics'')) (\<lambda>stats.
              bindE (fget rt stats (lit ''Clicks'') (JInt 0)) (\<lambda>clicks.
              bindE (fget rt stats (lit ''Impressions'') (JInt 0)) (\<lambda>imps.
              Inr [lit ''- **Clicks**: '' @ clicks, lit ''- **Impressions**: '' @ imps])))
            else Inr []) (\<lambda>stat_lines.
     Inr ([lit ''## '' @ name @ lit '' (ID: '' @ ident @ lit '')'',
           lit ''- **Type**: '' @ ty,
           lit ''- **State**: '' @ state,
           lit ''- **Status**: '' @ status]
          @ budget_lines @ stat_lines @ [[]]))))))))))"

text \<open>
  The shape all five list formatters share: the fixed sentence for a falsy collection,
  otherwise the title line followed by the lines of every entity, joined by newlines.
\<close>

definition format_list ::
  "pystr \<Rightarrow> pystr \<Rightarrow> (json \<Rightarrow> exn + pystr list) \<Rightarrow> json \<Rightarrow> exn + pystr" where
  "format_list empty_msg heading item_lines items =
     (if \<not> truthy items then Inr empty_msg
      else bindE (py_iter items) (\<lambda>xs.
           bindE (mapE item_lines xs) (\<lambda>ls.
           Inr (join NL ((heading @ NL) # concat ls)))))"

definition format_campaigns_markdown :: "pyrt \<Rightarrow> json \<Rightarrow> exn + pystr" where
  "format_campaigns_markdown rt campaigns =
     format_list (lit ''No campaigns found.'') (lit ''# Campaigns'') (campaign_lines rt) campaigns"

definition ad_lines :: "pyrt \<Rightarrow> json \<Rightarrow> exn + pystr list" where
  "ad_lines rt ad =
     bindE (fget rt ad (lit ''Id'') JNull) (\<lambda>ad_id.
     bindE (fget rt ad (lit ''AdGroupId'') JNull) (\<lambda>grp.
     bindE (fget rt ad (lit ''CampaignId'') JNull) (\<lambda>camp.
     bindE (fget rt ad (lit ''State'') NA) (\<lambda>state.
     bindE (fget rt ad (lit ''Status'') NA) (\<lambda>status.
     bindE (py_get ad (lit ''TextAd'') JNull) (\<lambda>ta.
     bindE (if truthy ta then
              bindE (py_getitem ad (lit ''TextAd'')) (\<lambda>text_ad.
              bindE (fget rt text_ad (lit ''Title'') NA) (\<lambda>t1.
              bindE (fget rt text_ad (lit ''Title2'') NA) (\<lambda>t2.
              bindE (fget rt text_ad (lit ''Text'') NA) (\<lambda>t3.
              bindE (fget rt text_ad (lit ''Href'') NA) (\<lambda>t4.
              Inr [lit ''- **Title**: '' @ t1, lit ''- **Title2**: '' @ t2,
                   lit ''- **Text**: '' @ t3, lit ''- **Href**: '' @ t4])))))
            else Inr []) (\<lambda>text_lines.
     Inr ([lit ''## Ad ID: '' @ ad_id,
           lit ''- **AdGroup ID**: '' @ grp,
           lit ''- **Campaign ID**: '' @ camp,
           lit ''- **State**: '' @ state,
           lit ''- **Status**: '' @ status]
          @ text_lines @ [[]]))))))))"

definition format_ads_markdown :: "pyrt \<Rightarrow> json \<Rightarrow> exn + pystr" where
  "format_ads_markdown rt ads =
     format_list (lit ''No ads found.'') (lit ''# Ads'') (ad_lines rt) ads"

definition adgroup_lines :: "pyrt \<Rightarrow> json \<Rightarrow> exn + pystr list" where
  "adgroup_lines rt grp =
     bindE (fget rt grp (lit ''Name'') (JStr (lit ''Unnamed''))) (\<lambda>name.
     bindE (fget rt grp (lit ''Id'') JNull) (\<lambda>ident.
     bindE (fget rt grp (lit ''CampaignId'') JNull) (\<lambda>camp.
     bindE (fget rt grp (lit ''Type'') NA) (\<lambda>ty.
     bindE (fget rt grp (lit ''Status'') NA) (\<lambda>status.
     bindE (py_get grp (lit ''RegionIds'') (JArr [])) (\<lambda>region_ids.
     bindE (if truthy region_ids then
              bindE (py_iter region_ids) (\<lambda>rs.
              Inr [lit ''- **Regions**: '' @ join (lit '', '') (map (py_str rt) rs)])
            else Inr []) (\<lambda>region_lines.
     Inr ([lit ''## '' @ name @ lit '' (ID: '' @ ident @ lit '')'',
           lit ''- **Campaign ID**: '' @ camp,
           lit ''- **Type**: '' @ ty,
           lit ''- **Status**: '' @ status]
          @ region_lines @ [[]]))))))))"

definition format_adgroups_markdown :: "pyrt \<Rightarrow> json \<Rightarrow> exn + pystr" where
  "format_adgroups_markdown rt groups =
     format_list (lit ''No ad groups found.'') (lit ''# Ad Groups'') (adgroup_lines rt) groups"

definition keyword_lines :: "pyrt \<Rightarrow> json \<Rightarrow> exn + pystr list" where
  "keyword_lines rt kw =
     bindE (fget rt kw (lit ''Keyword'') NA) (\<lambda>name.
     bindE (fget rt kw (lit ''Id'') JNull) (\<lambda>ident.
     bindE (fget rt kw (lit ''AdGroupId'') JNull) (\<lambda>grp.
     bindE (fget rt kw (lit ''State'') NA) (\<lambda>state.
     bindE (fget rt kw (lit ''Status'') NA) (\<lambda>status.
     bindE (py_get kw (lit ''Bid'') (JInt 0)) (\<lambda>bid.
     bindE (if truthy bid then
              bindE (truediv rt bid (JInt 1000000)) (\<lambda>amount.
              bindE (format_spec rt amount (lit ''.2f'')) (\<lambda>amount_s.
              Inr [lit ''- **Bid**: '' @ amount_s]))
            else Inr []) (\<lambda>bid_lines.
     Inr ([lit ''## '' @ name @ lit '' (ID: '' @ ident @ lit '')'',
           lit ''- **AdGroup ID**: '' @ grp,
           lit ''- **State**: '' @ state,
           lit ''- **Status**: '' @ status]
          @ bid_lines @ [[]]))))))))"

definition format_keywords_markdown :: "pyrt \<Rightarrow> json \<Rightarrow> exn + pystr" where
  "format_keywords_markdown rt keywords =
     format_list (lit ''No keywords found.'') (lit ''# Keywords'') (keyword_lines rt) keywords"

text \<open>The favourite mark is the code point U+2B50.\<close>

definition counter_lines :: "pyrt \<Rightarrow> json \<Rightarrow> exn + pystr list" where
  "counter_lines rt counter =
     bindE (fget rt counter (lit ''name'') (JStr (lit ''Unnamed''))) (\<lambda>name.
     bindE (fget rt counter (lit ''id'') JNull) (\<lambda>ident.
     bindE (py_get counter (lit ''site2'') (JObj [])) (\<lambda>site2.
     bindE (fget rt site2 (lit ''site'') NA) (\<lambda>site.
     bindE (fget rt counter (lit ''status'') NA) (\<lambda>status.
     bindE (fget rt counter (lit ''code_status'') NA) (\<lambda>code_status.
     bindE (fget rt counter (lit ''owner_login'') NA) (\<lambda>owner.
     bindE (py_get counter (lit ''favorite'') JNull) (\<lambda>fav.
     Inr ([lit ''## '' @ name @ lit '' (ID: '' @ ident @ lit '')'',
           lit ''- **Site**: '' @ site,
           lit ''- **Status**: '' @ status,
           lit ''- **Code Status**: '' @ code_status,
           lit ''- **Owner**: '' @ owner]
          @ (if truthy fav then [lit ''- **Favorite**: '' @ [11088]] else [])
          @ [[]])))))))))"

definition format_metrika_counters_markdown :: "pyrt \<Rightarrow> json \<Rightarrow> exn + pystr" where
  "format_metrika_counters_markdown rt counters =
     format_list (lit ''No counters found.'') (lit ''# Metrika Counters'') (counter_lines rt) counters"

text \<open>
  The analytics tabular report. The dash between the two dates is the code point U+2014.
  \<open>dim_str\<close> is the rendering of one dimension, \<open>report_row_line\<close> the line of one data
  row, \<open>report_head\<close> everything before the data rows.
\<close>

definition dim_str :: "pyrt \<Rightarrow> json \<Rightarrow> exn + pystr" where
  "dim_str rt d =
     (case d of
        JObj kvs \<Rightarrow>
          bindE (py_get d (lit ''id'') NA) (\<lambda>ident. fget rt d (lit ''name'') ident)
      | _ \<Rightarrow> Inr (py_str rt d))"

definition dims_str :: "pyrt \<Rightarrow> json \<Rightarrow> exn + pystr" where
  "dims_str rt dims =
     (if truthy dims then
        bindE (py_iter dims) (\<lambda>ds.
        bindE (mapE (dim_str rt) ds) (\<lambda>ss. Inr (join (lit '' / '') ss)))
      else Inr (lit ''Total''))"

definition report_row_line :: "pyrt \<Rightarrow> json \<Rightarrow> exn + pystr" where
  "report_row_line rt row =
     bindE (py_get row (lit ''dimensions'') (JArr [])) (\<lambda>dims.
     bindE (py_get row (lit ''metrics'') (JArr [])) (\<lambda>metrics_vals.
     bindE (dims_str rt dims) (\<lambda>ds.
     bindE (py_iter metrics_vals) (\<lambda>vs.
     bindE (mapE (\<lambda>v. format_spec rt v (lit '',.2f'')) vs) (\<lambda>ms.
     Inr (lit ''- **'' @ ds @ lit ''**: '' @ join (lit '', '') ms))))))"

definition total_line :: "pyrt \<Rightarrow> json \<Rightarrow> nat \<times> json \<Rightarrow> exn + pystr" where
  "total_line rt metrics it =
     bindE (py_len metrics) (\<lambda>n.
     bindE (if fst it < n then py_index metrics (fst it)
            else Inr (JStr (lit ''Metric '' @ int_str (int (fst it) + 1)))) (\<lambda>metric_name.
     bindE (format_spec rt (snd it) (lit '',.2f'')) (\<lambda>total_s.
     Inr (lit ''- **'' @ py_str rt metric_name @ lit ''**: '' @ total_s))))"

definition report_head :: "pyrt \<Rightarrow> json \<Rightarrow> exn + pystr list" where
  "report_head rt data =
     bindE (py_get data (lit ''query'') (JObj [])) (\<lambda>query.
     bindE (fget rt query (lit ''date1'') NA) (\<lambda>date1.
     bindE (fget rt query (lit ''date2'') NA) (\<lambda>date2.
     bindE (py_get query (lit ''dimensions'') JNull) (\<lambda>qd.
     bindE (if truthy qd then
              bindE (py_getitem query (lit ''dimensions'')) (\<lambda>x.
              bindE (py_join (lit '', '') x) (\<lambda>s. Inr [lit ''- **Dimensions**: '' @ s]))
            else Inr []) (\<lambda>dim_lines.
     bindE (py_get query (lit ''metrics'') JNull) (\<lambda>qm.
     bindE (if truthy qm then
              bindE (py_getitem query (lit ''metrics'')) (\<lambda>x.
              bindE (py_join (lit '', '') x) (\<lambda>s. Inr [lit ''- **Metrics**: '' @ s]))
            else Inr []) (\<lambda>metric_lines.
     bindE (py_get data (lit ''totals'') (JArr [])) (\<lambda>totals.
     bindE (if truthy totals then
              bindE (py_get query (lit ''metrics'') (JArr [])) (\<lambda>metrics.
              bindE (py_iter totals) (\<lambda>ts.
              bindE (mapE (total_line rt metrics) (enumerate 0 ts)) (\<lambda>ls.
              Inr ([lit ''## Totals''] @ ls @ [[]]))))
            else Inr []) (\<lambda>total_lines.
     Inr ([lit ''# Metrika Report'' @ NL,
           lit ''## Query Parameters'',
           lit ''- **Period**: '' @ date1 @ lit '' '' @ [8212] @ lit '' '' @ date2]
          @ dim_lines @ metric_lines @ [[]] @ total_lines))))))))))"

definition report_rows :: "pyrt \<Rightarrow> json \<Rightarrow> exn + pystr list" where
  "report_rows rt rows =
     (if truthy rows then
        bindE (py_len rows) (\<lambda>n.
        bindE (py_slice_to 50 rows) (\<lambda>shown.
        bindE (py_iter shown) (\<lambda>rs.
        bindE (mapE (report_row_line rt) rs) (\<lambda>ls.
        Inr ([lit ''## Data ('' @ int_str (int n) @ lit '' rows)''] @ ls @
             (if n > 50 then [NL @ lit ''*...and '' @ int_str (int n - 50) @ lit '' more rows*'']
              else []))))))
      else Inr [])"

definition format_metrika_report_markdown :: "pyrt \<Rightarrow> json \<Rightarrow> exn + pystr" where
  "format_metrika_report_markdown rt data =
     bindE (report_head rt data) (\<lambda>head.
     bindE (py_get data (lit ''data'') (JArr [])) (\<lambda>rows.
     bindE (report_rows rt rows) (\<lambda>row_lines.
     Inr (join NL (head @ row_lines)))))"

section \<open>The ads statistics report\<close>

record DirectReportInput =
  report_type :: pystr
  date_from :: pystr
  date_to :: pystr
  field_names :: "pystr list"
  report_campaign_ids :: "int list option"
  include_vat :: bool
  report_format :: ResponseFormat

text \<open>\<open>s.split(sep)\<close> for a separator of one character.\<close>

fun split_on :: "nat \<Rightarrow> pystr \<Rightarrow> pystr list" where
  "split_on c [] = [[]]"
| "split_on c (x # xs) =
     (if x = c then [] # split_on c xs
      else (case split_on c xs of y # ys \<Rightarrow> (x # y) # ys | [] \<Rightarrow> [[x]]))"

text \<open>\<open>dict(zip(header, row))\<close>: a repeated key keeps its first position and takes the
  last value.\<close>

fun dict_set :: "pystr \<Rightarrow> json \<Rightarrow> (pystr \<times> json) list \<Rightarrow> (pystr \<times> json) list" where
  "dict_set k v [] = [(k, v)]"
| "dict_set k v (p # ps) = (if fst p = k then (k, v) # ps else p # dict_set k v ps)"

definition dict_of_pairs :: "(pystr \<times> json) list \<Rightarrow> json" where
  "dict_of_pairs kvs = JObj (foldl (\<lambda>d kv. dict_set (fst kv) (snd kv) d) [] kvs)"

definition report_def :: "DirectReportInput \<Rightarrow> json" where
  "report_def params =
     JObj [(lit ''SelectionCriteria'',
            JObj ([(lit ''DateFrom'', JStr (date_from params)), (lit ''DateTo'', JStr (date_to params))] @
                  (case report_campaign_ids params of
                     None \<Rightarrow> []
                   | Some ids \<Rightarrow>
                       if ids = [] then []
                       else [(lit ''Filter'',
                              JArr [JObj [(lit ''Field'', JStr (lit ''CampaignId'')),
                                          (lit ''Operator'', JStr (lit ''IN'')),
                                          (lit ''Values'', JArr (map (\<lambda>cid. JStr (int_str cid)) ids))]])]))),
           (lit ''FieldNames'', JArr (map JStr (field_names params))),
           (lit ''ReportName'', JStr (lit ''Report_'' @ date_from params @ lit ''_'' @ date_to params)),
           (lit ''ReportType'', JStr (report_type params)),
           (lit ''DateRangeType'', JStr (lit ''CUSTOM_DATE'')),
           (lit ''Format'', JStr (lit ''TSV'')),
           (lit ''IncludeVAT'', JStr (if include_vat params then lit ''YES'' else lit ''NO'')),
           (lit ''IncludeDiscount'', JStr (lit ''NO''))]"

definition report_headers :: "YandexAPIClient \<Rightarrow> pystr \<Rightarrow> (pystr \<times> pystr) list" where
  "report_headers c token =
     [(lit ''Authorization'', lit ''Bearer '' @ token),
      (lit ''Accept-Language'', lit ''ru''),
      (lit ''Content-Type'', lit ''application/json''),
      (lit ''processingMode'', lit ''auto''),
      (lit ''returnMoneyInMicros'', lit ''false''),
      (lit ''skipReportHeader'', lit ''true''),
      (lit ''skipColumnHeader'', lit ''false''),
      (lit ''skipReportSummary'', lit ''true'')]
     @ (if client_login c \<noteq> [] then [(lit ''Client-Login'', client_login c)] else [])"

definition table_row :: "pystr list \<Rightarrow> pystr" where
  "table_row cells = lit ''| '' @ join (lit '' | '') cells @ lit '' |''"

text \<open>The branch for status 200: the TSV body parsed and rendered.\<close>

definition render_statistics :: "pyrt \<Rightarrow> DirectReportInput \<Rightarrow> pystr \<Rightarrow> pystr" where
  "render_statistics rt params body =
     (let lines = split_on 10 (py_strip body) in
      if length lines < 2 then lit ''No data found for the specified period.''
      else
        let header = split_on 9 (hd lines);
            data_rows = map (split_on 9) (filter (\<lambda>line. py_strip line \<noteq> []) (tl lines))
        in if report_format params = JSON then
             json_dumps rt
               (JObj [(lit ''data'',
                       JArr (map (\<lambda>row. dict_of_pairs (zip header (map JStr row))) data_rows)),
                      (lit ''total'', JInt (int (length data_rows)))])
           else
             join NL
               ([lit ''# Direct Statistics Report'' @ NL,
                 lit ''**Period**: '' @ date_from params @ lit '' '' @ [8212] @ lit '' '' @ date_to params,
                 lit ''**Report type**: '' @ report_type params @ NL,
                 table_row header,
                 table_row (replicate (length header) (lit ''---''))]
                @ map table_row (take 100 data_rows)
                @ (if length data_rows > 100 then
                     [NL @ lit ''*...and '' @ int_str (int (length data_rows) - 100) @ lit '' more rows*'']
                   else [])))"

text \<open>
  The operation. It returns a string, except for a 2xx status other than 200, 201 and
  202, where the function falls off its end and returns \<open>None\<close>.
\<close>

definition direct_get_statistics ::
  "pyrt \<Rightarrow> network \<Rightarrow> DirectReportInput \<Rightarrow> world \<Rightarrow> pystr option \<times> world" where
  "direct_get_statistics rt net params w =
     (let c = api_client w; token = get_direct_token c in
      if token = [] then
        (Some (handle_api_error rt (ValueError (lit ''Yandex Direct API token not configured.''))), w)
      else
        let rq = \<lparr>req_method = lit ''POST'',
                  req_url = get_direct_url c False @ lit ''/reports'',
                  req_headers = report_headers c token,
                  req_params = None,
                  req_json = Some (JObj [(lit ''params'', report_def params)]),
                  req_timeout = 120\<rparr>
        in case send net rq w of
             (Failed e, w') \<Rightarrow> (Some (handle_api_error rt e), w')
           | (Responded r, w') \<Rightarrow>
               if status_code r = 200 then (Some (render_statistics rt params (text_body r)), w')
               else if status_code r = 201 \<or> status_code r = 202 then
                 (Some (lit ''Report is being generated. Please try again in a few seconds.''), w')
               else (case raise_for_status r of
                       Inl e \<Rightarrow> (Some (handle_api_error rt e), w')
                     | Inr u \<Rightarrow> (None, w')))"


text \<open>Sample inputs for evaluating the operations: a world with an ads token and an
  analytics token and nothing sent yet, and a report request in markdown.\<close>

definition sample_world :: world where
  "sample_world =
     \<lparr>api_client = \<lparr>direct_token = lit ''d-token'', metrika_token = lit ''m-token'',
                     unified_token = [], client_login = [], use_sandbox = False\<rparr>,
      sent = []\<rparr>"


section \<open>Batch management operations\<close>

text \<open>
  Every operation body is \<open>try: ... except Exception as e: return _handle_api_error(e)\<close>
  around one call of the ads client and the rendering of its result.
\<close>

definition direct_call ::
  "pyrt \<Rightarrow> network \<Rightarrow> pystr \<Rightarrow> pystr \<Rightarrow> json \<Rightarrow> bool \<Rightarrow> (json \<Rightarrow> exn + pystr) \<Rightarrow> world
     \<Rightarrow> pystr \<times> world" where
  "direct_call rt net service method request_params use_v501 render w =
     (case direct_request net service method request_params use_v501 w of
        (Inl e, w') \<Rightarrow> (handle_api_error rt e, w')
      | (Inr result, w') \<Rightarrow>
          (case render result of
             Inl e \<Rightarrow> (handle_api_error rt e, w')
           | Inr s \<Rightarrow> (s, w')))"

record ManageCampaignInput =
  campaign_ids :: "int list"

record ManageAdInput =
  ad_ids :: "int list"

record ManageKeywordInput =
  keyword_ids :: "int list"

definition ids_criteria :: "int list \<Rightarrow> json" where
  "ids_criteria ids = JObj [(lit ''SelectionCriteria'', JObj [(lit ''Ids'', JArr (map JInt ids))])]"

text \<open>\<open>[r["Id"] for r in results if r.get("Id") and not r.get("Errors")]\<close>\<close>

definition strict_success :: "json \<Rightarrow> exn + json list" where
  "strict_success r =
     bindE (py_get r (lit ''Id'') JNull) (\<lambda>i.
     if truthy i then
       bindE (py_get r (lit ''Errors'') JNull) (\<lambda>e.
       if \<not> truthy e then bindE (py_getitem r (lit ''Id'')) (\<lambda>x. Inr [x]) else Inr [])
     else Inr [])"

text \<open>\<open>if r.get("Id"): success.append(r["Id"])\<close>\<close>

definition loose_success :: "json \<Rightarrow> exn + json list" where
  "loose_success r =
     bindE (py_get r (lit ''Id'') JNull) (\<lambda>i.
     if truthy i then bindE (py_getitem r (lit ''Id'')) (\<lambda>x. Inr [x]) else Inr [])"

text \<open>\<open>if r.get("Errors"): errors.extend([f"ID {r.get('Id', '?')}: {e.get('Message', 'Unknown error')}"
  for e in r["Errors"]])\<close>\<close>

definition item_errors :: "pyrt \<Rightarrow> json \<Rightarrow> exn + pystr list" where
  "item_errors rt r =
     bindE (py_get r (lit ''Errors'') JNull) (\<lambda>errs.
     if truthy errs then
       bindE (py_getitem r (lit ''Errors'')) (\<lambda>es.
       bindE (py_iter es) (\<lambda>el.
       mapE (\<lambda>e. bindE (fget rt r (lit ''Id'') (JStr (lit ''?''))) (\<lambda>i.
                  bindE (fget rt e (lit ''Message'') (JStr (lit ''Unknown error''))) (\<lambda>m.
                  Inr (lit ''ID '' @ i @ lit '': '' @ m)))) el))
     else Inr [])"

text \<open>\<open>if errors: response += "\n\nErrors:\n" + "\n".join(f"- {e}" for e in errors)\<close>\<close>

definition errors_block :: "pystr list \<Rightarrow> pystr" where
  "errors_block errors =
     (if errors = [] then []
      else NL @ NL @ lit ''Errors:'' @ NL @ join NL (map (\<lambda>e. lit ''- '' @ e) errors))"

text \<open>
  The three renderings of a result list. \<open>render_itemized\<close>: the successes are collected
  first, then the errors, and both are reported. \<open>render_loose\<close>: one loop collects both,
  and an item counts as a success as soon as it carries an Id. \<open>render_count\<close>: only the
  successes are collected and reported.
\<close>

definition render_itemized :: "pyrt \<Rightarrow> pystr \<Rightarrow> pystr \<Rightarrow> json \<Rightarrow> exn + pystr" where
  "render_itemized rt pre post results =
     bindE (py_iter results) (\<lambda>rs.
     bindE (mapE strict_success rs) (\<lambda>success.
     bindE (mapE (item_errors rt) rs) (\<lambda>errors.
     Inr (pre @ int_str (int (length (concat success))) @ post @ errors_block (concat errors)))))"

definition render_loose :: "pyrt \<Rightarrow> pystr \<Rightarrow> pystr \<Rightarrow> json \<Rightarrow> exn + pystr" where
  "render_loose rt pre post results =
     bindE (py_iter results) (\<lambda>rs.
     bindE (mapE (\<lambda>r. bindE (loose_success r) (\<lambda>s. bindE (item_errors rt r) (\<lambda>e. Inr (s, e)))) rs) (\<lambda>both.
     Inr (pre @ int_str (int (length (concat (map fst both)))) @ post
          @ errors_block (concat (map snd both)))))"

definition render_count :: "pystr \<Rightarrow> pystr \<Rightarrow> json \<Rightarrow> exn + pystr" where
  "render_count pre post results =
     bindE (py_iter results) (\<lambda>rs.
     bindE (mapE strict_success rs) (\<lambda>success.
     Inr (pre @ int_str (int (length (concat success))) @ post)))"

definition direct_suspend_campaigns ::
  "pyrt \<Rightarrow> network \<Rightarrow> ManageCampaignInput \<Rightarrow> world \<Rightarrow> pystr \<times> world" where
  "direct_suspend_campaigns rt net params w =
     direct_call rt net (lit ''campaigns'') (lit ''suspend'') (ids_criteria (campaign_ids params)) False
       (\<lambda>result. bindE (result_list result (lit ''SuspendResults''))
          (render_loose rt (lit ''Successfully suspended '') (lit '' campaign(s).''))) w"

definition direct_resume_campaigns ::
  "pyrt \<Rightarrow> network \<Rightarrow> ManageCampaignInput \<Rightarrow> world \<Rightarrow> pystr \<times> world" where
  "direct_resume_campaigns rt net params w =
     direct_call rt net (lit ''campaigns'') (lit ''resume'') (ids_criteria (campaign_ids params)) False
       (\<lambda>result. bindE (result_list result (lit ''ResumeResults''))
          (render_loose rt (lit ''Successfully resumed '') (lit '' campaign(s).''))) w"

definition direct_archive_campaigns ::
  "pyrt \<Rightarrow> network \<Rightarrow> ManageCampaignInput \<Rightarrow> world \<Rightarrow> pystr \<times> world" where
  "direct_archive_campaigns rt net params w =
     direct_call rt net (lit ''campaigns'') (lit ''archive'') (ids_criteria (campaign_ids params)) False
       (\<lambda>result. bindE (result_list result (lit ''ArchiveResults''))
          (render_itemized rt (lit ''Successfully archived '') (lit '' campaign(s).''))) w"

definition direct_unarchive_campaigns ::
  "pyrt \<Rightarrow> network \<Rightarrow> ManageCampaignInput \<Rightarrow> world \<Rightarrow> pystr \<times> world" where
  "direct_unarchive_campaigns rt net params w =
     direct_call rt net (lit ''campaigns'') (lit ''unarchive'') (ids_criteria (campaign_ids params)) False
       (\<lambda>result. bindE (result_list result (lit ''UnarchiveResults''))
          (render_itemized rt (lit ''Successfully unarchived '') (lit '' campaign(s).''))) w"

definition direct_delete_campaigns ::
  "pyrt \<Rightarrow> network \<Rightarrow> ManageCampaignInput \<Rightarrow> world \<Rightarrow> pystr \<times> world" where
  "direct_delete_campaigns rt net params w =
     direct_call rt net (lit ''campaigns'') (lit ''delete'') (ids_criteria (campaign_ids params)) False
       (\<lambda>result. bindE (result_list result (lit ''DeleteResults''))
          (render_itemized rt (lit ''Successfully deleted '') (lit '' campaign(s).''))) w"

definition direct_moderate_ads ::
  "pyrt \<Rightarrow> network \<Rightarrow> ManageAdInput \<Rightarrow> world \<Rightarrow> pystr \<times> world" where
  "direct_moderate_ads rt net params w =
     direct_call rt net (lit ''ads'') (lit ''moderate'') (ids_criteria (ad_ids params)) False
       (\<lambda>result. bindE (result_list result (lit ''ModerateResults''))
          (render_itemized rt (lit ''Successfully submitted '') (lit '' ad(s) for moderation.''))) w"

definition direct_suspend_ads ::
  "pyrt \<Rightarrow> network \<Rightarrow> ManageAdInput \<Rightarrow> world \<Rightarrow> pystr \<times> world" where
  "direct_suspend_ads rt net params w =
     direct_call rt net (lit ''ads'') (lit ''suspend'') (ids_criteria (ad_ids params)) False
       (\<lambda>result. bindE (result_list result (lit ''SuspendResults''))
          (render_count (lit ''Successfully suspended '') (lit '' ad(s).''))) w"

definition direct_resume_ads ::
  "pyrt \<Rightarrow> network \<Rightarrow> ManageAdInput \<Rightarrow> world \<Rightarrow> pystr \<times> world" where
  "direct_resume_ads rt net params w =
     direct_call rt net (lit ''ads'') (lit ''resume'') (ids_criteria (ad_ids params)) False
       (\<lambda>result. bindE (result_list result (lit ''ResumeResults''))
          (render_count (lit ''Successfully resumed '') (lit '' ad(s).''))) w"

definition direct_delete_keywords ::
  "pyrt \<Rightarrow> network \<Rightarrow> ManageKeywordInput \<Rightarrow> world \<Rightarrow> pystr \<times> world" where
  "direct_delete_keywords rt net params w =
     direct_call rt net (lit ''keywords'') (lit ''delete'') (ids_criteria (keyword_ids params)) False
       (\<lambda>result. bindE (result_list result (lit ''DeleteResults''))
          (render_itemized rt (lit ''Successfully deleted '') (lit '' keyword(s).''))) w"

definition direct_delete_ads ::
  "pyrt \<Rightarrow> network \<Rightarrow> ManageAdInput \<Rightarrow> world \<Rightarrow> pystr \<times> world" where
  "direct_delete_ads rt net params w =
     direct_call rt net (lit ''ads'') (lit ''delete'') (ids_criteria (ad_ids params)) False
       (\<lambda>result. bindE (result_list result (lit ''DeleteResults''))
          (render_itemized rt (lit ''Successfully deleted '') (lit '' ad(s).''))) w"

definition direct_archive_ads ::
  "pyrt \<Rightarrow> network \<Rightarrow> ManageAdInput \<Rightarrow> world \<Rightarrow> pystr \<times> world" where
  "direct_archive_ads rt net params w =
     direct_call rt net (lit ''ads'') (lit ''archive'') (ids_criteria (ad_ids params)) False
       (\<lambda>result. bindE (result_list result (lit ''ArchiveResults''))
          (render_itemized rt (lit ''Successfully archived '') (lit '' ad(s).''))) w"

definition direct_unarchive_ads ::
  "pyrt \<Rightarrow> network \<Rightarrow> ManageAdInput \<Rightarrow> world \<Rightarrow> pystr \<times> world" where
  "direct_unarchive_ads rt net params w =
     direct_call rt net (lit ''ads'') (lit ''unarchive'') (ids_criteria (ad_ids params)) False
       (\<lambda>result. bindE (result_list result (lit ''UnarchiveResults''))
          (render_itemized rt (lit ''Successfully unarchived '') (lit '' ad(s).''))) w"

text \<open>
  What the vendor reports for one item of a batch: the item's Id when the action was
  applied, or one error with its message. \<open>vendor_reply\<close> is the decoded body for a
  list of such items under the given results key.
\<close>

definition vendor_item :: "int + pystr \<Rightarrow> json" where
  "vendor_item x =
     (case x of
        Inl i \<Rightarrow> JObj [(lit ''Id'', JInt i)]
      | Inr m \<Rightarrow> JObj [(lit ''Errors'', JArr [JObj [(lit ''Code'', JInt 8800), (lit ''Message'', JStr m)]])])"

definition vendor_reply :: "pystr \<Rightarrow> (int + pystr) list \<Rightarrow> response" where
  "vendor_reply key items =
     \<lparr>status_code = 200, text_body = [],
      json_body = Inr (JObj [(lit ''result'', JObj [(key, JArr (map vendor_item items))])])\<rparr>"

section \<open>The other operations of the catalog\<close>

subsection \<open>Enumerations and their values\<close>

datatype CampaignState = CS_ON | CS_OFF | CS_SUSPENDED | CS_ENDED | CS_CONVERTED | CS_ARCHIVED

fun CampaignState_value :: "CampaignState \<Rightarrow> pystr" where
  "CampaignState_value CS_ON = lit ''ON''"
| "CampaignState_value CS_OFF = lit ''OFF''"
| "CampaignState_value CS_SUSPENDED = lit ''SUSPENDED''"
| "CampaignState_value CS_ENDED = lit ''ENDED''"
| "CampaignState_value CS_CONVERTED = lit ''CONVERTED''"
| "CampaignState_value CS_ARCHIVED = lit ''ARCHIVED''"

datatype CampaignStatus = CT_ACCEPTED | CT_DRAFT | CT_MODERATION | CT_REJECTED

fun CampaignStatus_value :: "CampaignStatus \<Rightarrow> pystr" where
  "CampaignStatus_value CT_ACCEPTED = lit ''ACCEPTED''"
| "CampaignStatus_value CT_DRAFT = lit ''DRAFT''"
| "CampaignStatus_value CT_MODERATION = lit ''MODERATION''"
| "CampaignStatus_value CT_REJECTED = lit ''REJECTED''"

datatype CampaignType =
  TEXT_CAMPAIGN | DYNAMIC_TEXT_CAMPAIGN | MOBILE_APP_CAMPAIGN | CPM_BANNER_CAMPAIGN
  | SMART_CAMPAIGN | UNIFIED_CAMPAIGN

fun CampaignType_value :: "CampaignType \<Rightarrow> pystr" where
  "CampaignType_value TEXT_CAMPAIGN = lit ''TEXT_CAMPAIGN''"
| "CampaignType_value DYNAMIC_TEXT_CAMPAIGN = lit ''DYNAMIC_TEXT_CAMPAIGN''"
| "CampaignType_value MOBILE_APP_CAMPAIGN = lit ''MOBILE_APP_CAMPAIGN''"
| "CampaignType_value CPM_BANNER_CAMPAIGN = lit ''CPM_BANNER_CAMPAIGN''"
| "CampaignType_value SMART_CAMPAIGN = lit ''SMART_CAMPAIGN''"
| "CampaignType_value UNIFIED_CAMPAIGN = lit ''UNIFIED_CAMPAIGN''"

datatype AdState = AS_ON | AS_OFF | AS_OFF_BY_MONITORING | AS_SUSPENDED | AS_ARCHIVED

fun AdState_value :: "AdState \<Rightarrow> pystr" where
  "AdState_value AS_ON = lit ''ON''"
| "AdState_value AS_OFF = lit ''OFF''"
| "AdState_value AS_OFF_BY_MONITORING = lit ''OFF_BY_MONITORING''"
| "AdState_value AS_SUSPENDED = lit ''SUSPENDED''"
| "AdState_value AS_ARCHIVED = lit ''ARCHIVED''"

datatype AdStatus = AT_ACCEPTED | AT_DRAFT | AT_MODERATION | AT_PREACCEPTED | AT_REJECTED

fun AdStatus_value :: "AdStatus \<Rightarrow> pystr" where
  "AdStatus_value AT_ACCEPTED = lit ''ACCEPTED''"
| "AdStatus_value AT_DRAFT = lit ''DRAFT''"
| "AdStatus_value AT_MODERATION = lit ''MODERATION''"
| "AdStatus_value AT_PREACCEPTED = lit ''PREACCEPTED''"
| "AdStatus_value AT_REJECTED = lit ''REJECTED''"

datatype DailyBudgetMode = STANDARD | DISTRIBUTED

fun DailyBudgetMode_value :: "DailyBudgetMode \<Rightarrow> pystr" where
  "DailyBudgetMode_value STANDARD = lit ''STANDARD''"
| "DailyBudgetMode_value DISTRIBUTED = lit ''DISTRIBUTED''"

datatype MetrikaGroupType = DAY | WEEK | MONTH | QUARTER | YEAR | HOUR | MINUTE

fun MetrikaGroupType_value :: "MetrikaGroupType \<Rightarrow> pystr" where
  "MetrikaGroupType_value DAY = lit ''day''"
| "MetrikaGroupType_value WEEK = lit ''week''"
| "MetrikaGroupType_value MONTH = lit ''month''"
| "MetrikaGroupType_value QUARTER = lit ''quarter''"
| "MetrikaGroupType_value YEAR = lit ''year''"
| "MetrikaGroupType_value HOUR = lit ''hour''"
| "MetrikaGroupType_value MINUTE = lit ''minute''"

subsection \<open>Inputs\<close>

text \<open>The fields carry a prefix per input class, since several classes share field names.\<close>

record GetCampaignsInput =
  gc_campaign_ids :: "int list option"
  gc_states :: "CampaignState list option"
  gc_statuses :: "CampaignStatus list option"
  gc_types :: "CampaignType list option"
  gc_limit :: int
  gc_offset :: int
  gc_response_format :: ResponseFormat

record UpdateCampaignInput =
  uc_campaign_id :: int
  uc_name :: "pystr option"
  uc_daily_budget_amount :: "pyfloat option"
  uc_daily_budget_mode :: "DailyBudgetMode option"
  uc_start_date :: "pystr option"
  uc_end_date :: "pystr option"
  uc_negative_keywords :: "pystr list option"

record GetAdGroupsInput =
  gg_campaign_ids :: "int list option"
  gg_adgroup_ids :: "int list option"
  gg_limit :: int
  gg_offset :: int
  gg_response_format :: ResponseFormat

record CreateAdGroupInput =
  cg_campaign_id :: int
  cg_name :: pystr
  cg_region_ids :: "int list"
  cg_negative_keywords :: "pystr list option"

record GetAdsInput =
  ga_campaign_ids :: "int list option"
  ga_adgroup_ids :: "int list option"
  ga_ad_ids :: "int list option"
  ga_states :: "AdState list option"
  ga_statuses :: "AdStatus list option"
  ga_limit :: int
  ga_offset :: int
  ga_response_format :: ResponseFormat

record CreateTextAdInput =
  ca_adgroup_id :: int
  ca_title :: pystr
  ca_title2 :: "pystr option"
  ca_text :: pystr
  ca_href :: pystr
  ca_mobile :: bool

record GetKeywordsInput =
  gk_campaign_ids :: "int list option"
  gk_adgroup_ids :: "int list option"
  gk_keyword_ids :: "int list option"
  gk_limit :: int
  gk_offset :: int
  gk_response_format :: ResponseFormat

record AddKeywordsInput =
  ak_adgroup_id :: int
  ak_keywords :: "pystr list"
  ak_bid :: "pyfloat option"

record SetKeywordBidsInput =
  keyword_bids :: "json list"

record UpdateAdGroupInput =
  ug_adgroup_id :: int
  ug_name :: "pystr option"
  ug_region_ids :: "int list option"
  ug_negative_keywords :: "pystr list option"
  ug_tracking_params :: "pystr option"

subsection \<open>Request building\<close>

text \<open>\<open>if xs: criteria[key] = xs\<close> for an optional list, and the page of a listing.\<close>

definition opt_entry :: "pystr \<Rightarrow> ('a \<Rightarrow> json) \<Rightarrow> 'a list option \<Rightarrow> (pystr \<times> json) list" where
  "opt_entry key f v =
     (case v of
        None \<Rightarrow> []
      | Some xs \<Rightarrow> if xs = [] then [] else [(key, JArr (map f xs))])"

definition str_entry :: "pystr \<Rightarrow> pystr option \<Rightarrow> (pystr \<times> json) list" where
  "str_entry key v = (if given v then [(key, JStr (the v))] else [])"

definition page :: "int \<Rightarrow> int \<Rightarrow> json" where
  "page limit offset = JObj [(lit ''Limit'', JInt limit), (lit ''Offset'', JInt offset)]"

definition names :: "string list \<Rightarrow> json" where
  "names xs = JArr (map (\<lambda>x. JStr (lit x)) xs)"

text \<open>The listings: JSON output through \<open>json.dumps\<close>, markdown through the formatter.\<close>

definition render_listing ::
  "pyrt \<Rightarrow> ResponseFormat \<Rightarrow> pystr \<Rightarrow> pystr \<Rightarrow> (pyrt \<Rightarrow> json \<Rightarrow> exn + pystr) \<Rightarrow> json \<Rightarrow> exn + pystr" where
  "render_listing rt fmt key out_key formatter result =
     bindE (result_list result key) (\<lambda>items.
     if fmt = JSON then
       bindE (py_len items) (\<lambda>n.
       Inr (json_dumps rt (JObj [(out_key, items), (lit ''total'', JInt (int n))])))
     else formatter rt items)"

definition direct_get_campaigns ::
  "pyrt \<Rightarrow> network \<Rightarrow> GetCampaignsInput \<Rightarrow> world \<Rightarrow> pystr \<times> world" where
  "direct_get_campaigns rt net params w =
     (let selection_criteria =
            opt_entry (lit ''Ids'') JInt (gc_campaign_ids params) @
            opt_entry (lit ''States'') (\<lambda>s. JStr (CampaignState_value s)) (gc_states params) @
            opt_entry (lit ''Statuses'') (\<lambda>s. JStr (CampaignStatus_value s)) (gc_statuses params) @
            opt_entry (lit ''Types'') (\<lambda>t. JStr (CampaignType_value t)) (gc_types params);
          request_params =
            JObj [(lit ''SelectionCriteria'', JObj selection_criteria),
                  (lit ''FieldNames'',
                   names [''Id'', ''Name'', ''Type'', ''State'', ''Status'', ''StatusPayment'',
                          ''StartDate'', ''EndDate'', ''DailyBudget'', ''Statistics'']),
                  (lit ''TextCampaignFieldNames'', names [''BiddingStrategy'', ''Settings'']),
                  (lit ''Page'', page (gc_limit params) (gc_offset params))]
      in direct_call rt net (lit ''campaigns'') (lit ''get'') request_params False
           (render_listing rt (gc_response_format params) (lit ''Campaigns'') (lit ''campaigns'')
              format_campaigns_markdown) w)"

definition direct_get_adgroups ::
  "pyrt \<Rightarrow> network \<Rightarrow> GetAdGroupsInput \<Rightarrow> world \<Rightarrow> pystr \<times> world" where
  "direct_get_adgroups rt net params w =
     (let selection_criteria =
            opt_entry (lit ''CampaignIds'') JInt (gg_campaign_ids params) @
            opt_entry (lit ''Ids'') JInt (gg_adgroup_ids params);
          request_params =
            JObj [(lit ''SelectionCriteria'', JObj selection_criteria),
                  (lit ''FieldNames'',
                   names [''Id'', ''Name'', ''CampaignId'', ''RegionIds'', ''Type'', ''Status'',
                          ''ServingStatus'']),
                  (lit ''Page'', page (gg_limit params) (gg_offset params))]
      in direct_call rt net (lit ''adgroups'') (lit ''get'') request_params False
           (render_listing rt (gg_response_format params) (lit ''AdGroups'') (lit ''ad_groups'')
              format_adgroups_markdown) w)"

definition direct_get_ads ::
  "pyrt \<Rightarrow> network \<Rightarrow> GetAdsInput \<Rightarrow> world \<Rightarrow> pystr \<times> world" where
  "direct_get_ads rt net params w =
     (let selection_criteria =
            opt_entry (lit ''CampaignIds'') JInt (ga_campaign_ids params) @
            opt_entry (lit ''AdGroupIds'') JInt (ga_adgroup_ids params) @
            opt_entry (lit ''Ids'') JInt (ga_ad_ids params) @
            opt_entry (lit ''States'') (\<lambda>s. JStr (AdState_value s)) (ga_states params) @
            opt_entry (lit ''Statuses'') (\<lambda>s. JStr (AdStatus_value s)) (ga_statuses params);
          request_params =
            JObj [(lit ''SelectionCriteria'', JObj selection_criteria),
                  (lit ''FieldNames'',
                   names [''Id'', ''AdGroupId'', ''CampaignId'', ''Type'', ''State'', ''Status'',
                          ''StatusClarification'']),
                  (lit ''TextAdFieldNames'',
                   names [''Title'', ''Title2'', ''Text'', ''Href'', ''Mobile'', ''DisplayDomain'']),
                  (lit ''Page'', page (ga_limit params) (ga_offset params))]
      in direct_call rt net (lit ''ads'') (lit ''get'') request_params False
           (render_listing rt (ga_response_format params) (lit ''Ads'') (lit ''ads'')
              format_ads_markdown) w)"

definition direct_get_keywords ::
  "pyrt \<Rightarrow> network \<Rightarrow> GetKeywordsInput \<Rightarrow> world \<Rightarrow> pystr \<times> world" where
  "direct_get_keywords rt net params w =
     (let selection_criteria =
            opt_entry (lit ''CampaignIds'') JInt (gk_campaign_ids params) @
            opt_entry (lit ''AdGroupIds'') JInt (gk_adgroup_ids params) @
            opt_entry (lit ''Ids'') JInt (gk_keyword_ids params);
          request_params =
            JObj [(lit ''SelectionCriteria'', JObj selection_criteria),
                  (lit ''FieldNames'',
                   names [''Id'', ''Keyword'', ''AdGroupId'', ''CampaignId'', ''Bid'', ''State'',
                          ''Status'']),
                  (lit ''Page'', page (gk_limit params) (gk_offset params))]
      in direct_call rt net (lit ''keywords'') (lit ''get'') request_params False
           (render_listing rt (gk_response_format params) (lit ''Keywords'') (lit ''keywords'')
              format_keywords_markdown) w)"

text \<open>
  The update of a campaign. Building the request converts the daily budget to
  micro-units, which can raise before the client is called.
\<close>

definition campaign_update :: "pyrt \<Rightarrow> UpdateCampaignInput \<Rightarrow> exn + json" where
  "campaign_update rt params =
     bindE (case uc_daily_budget_amount params of
              None \<Rightarrow> Inr []
            | Some a \<Rightarrow>
                bindE (micros rt (JFloat a)) (\<lambda>amount.
                Inr [(lit ''DailyBudget'',
                      JObj [(lit ''Amount'', amount),
                            (lit ''Mode'',
                             JStr (case uc_daily_budget_mode params of
                                     Some m \<Rightarrow> DailyBudgetMode_value m
                                   | None \<Rightarrow> lit ''DISTRIBUTED''))])])) (\<lambda>budget.
     Inr (JObj ([(lit ''Id'', JInt (uc_campaign_id params))] @
                str_entry (lit ''Name'') (uc_name params) @
                budget @
                str_entry (lit ''StartDate'') (uc_start_date params) @
                str_entry (lit ''EndDate'') (uc_end_date params) @
                (case uc_negative_keywords params of
                   None \<Rightarrow> []
                 | Some ks \<Rightarrow> [(lit ''NegativeKeywords'', JObj [(lit ''Items'', JArr (map JStr ks))])]))))"

definition render_update :: "pyrt \<Rightarrow> pystr \<Rightarrow> json \<Rightarrow> exn + pystr" where
  "render_update rt done result =
     bindE (result_list result (lit ''UpdateResults'')) (\<lambda>update_results.
     bindE (update_issues rt update_results) (\<lambda>errors.
     if errors \<noteq> [] then Inr (lit ''Update completed with issues:'' @ NL @ bullet_lines rt errors)
     else Inr done))"

definition direct_update_campaign ::
  "pyrt \<Rightarrow> network \<Rightarrow> UpdateCampaignInput \<Rightarrow> world \<Rightarrow> pystr \<times> world" where
  "direct_update_campaign rt net params w =
     (case campaign_update rt params of
        Inl e \<Rightarrow> (handle_api_error rt e, w)
      | Inr upd \<Rightarrow>
          direct_call rt net (lit ''campaigns'') (lit ''update'') (JObj [(lit ''Campaigns'', JArr [upd])]) False
            (render_update rt
               (lit ''Campaign '' @ int_str (uc_campaign_id params) @ lit '' updated successfully.'')) w)"

definition direct_update_adgroup ::
  "pyrt \<Rightarrow> network \<Rightarrow> UpdateAdGroupInput \<Rightarrow> world \<Rightarrow> pystr \<times> world" where
  "direct_update_adgroup rt net params w =
     (let adgroup_update =
            JObj ([(lit ''Id'', JInt (ug_adgroup_id params))] @
                  str_entry (lit ''Name'') (ug_name params) @
                  opt_entry (lit ''RegionIds'') JInt (ug_region_ids params) @
                  (case ug_negative_keywords params of
                     None \<Rightarrow> []
                   | Some ks \<Rightarrow> [(lit ''NegativeKeywords'', JObj [(lit ''Items'', JArr (map JStr ks))])]) @
                  str_entry (lit ''TrackingParams'') (ug_tracking_params params))
      in direct_call rt net (lit ''adgroups'') (lit ''update'') (JObj [(lit ''AdGroups'', JArr [adgroup_update])])
           False
           (render_update rt
              (lit ''Ad group '' @ int_str (ug_adgroup_id params) @ lit '' updated successfully.'')) w)"

text \<open>
  The creations: the Id of the first result when there is one, otherwise the messages of
  all errors.
\<close>

definition item_messages :: "json \<Rightarrow> exn + json list" where
  "item_messages r =
     bindE (py_get r (lit ''Errors'') JNull) (\<lambda>errs.
     if truthy errs then
       bindE (py_getitem r (lit ''Errors'')) (\<lambda>es.
       bindE (py_iter es) (\<lambda>el.
       mapE (\<lambda>e. py_get e (lit ''Message'') (JStr (lit ''Unknown error''))) el))
     else Inr [])"

definition render_created :: "pyrt \<Rightarrow> pystr \<Rightarrow> pystr \<Rightarrow> pystr \<Rightarrow> json \<Rightarrow> exn + pystr" where
  "render_created rt created tail failed result =
     bindE (result_list result (lit ''AddResults'')) (\<lambda>add_results.
     bindE (if truthy add_results then
              bindE (py_index add_results 0) (\<lambda>first.
              bindE (py_get first (lit ''Id'') JNull) (\<lambda>i. Inr (truthy i)))
            else Inr False) (\<lambda>ok.
     if ok then
       bindE (py_index add_results 0) (\<lambda>first.
       bindE (py_getitem first (lit ''Id'')) (\<lambda>i. Inr (created @ py_str rt i @ tail)))
     else
       bindE (py_iter add_results) (\<lambda>rs.
       bindE (mapE item_messages rs) (\<lambda>errors.
       Inr (failed @ NL @ bullet_lines rt (concat errors))))))"

definition direct_create_adgroup ::
  "pyrt \<Rightarrow> network \<Rightarrow> CreateAdGroupInput \<Rightarrow> world \<Rightarrow> pystr \<times> world" where
  "direct_create_adgroup rt net params w =
     (let adgroup =
            JObj ([(lit ''Name'', JStr (cg_name params)),
                   (lit ''CampaignId'', JInt (cg_campaign_id params)),
                   (lit ''RegionIds'', JArr (map JInt (cg_region_ids params)))] @
                  (case cg_negative_keywords params of
                     None \<Rightarrow> []
                   | Some ks \<Rightarrow>
                       if ks = [] then []
                       else [(lit ''NegativeKeywords'', JObj [(lit ''Items'', JArr (map JStr ks))])]))
      in direct_call rt net (lit ''adgroups'') (lit ''add'') (JObj [(lit ''AdGroups'', JArr [adgroup])]) False
           (render_created rt (lit ''Ad group created successfully. ID: '') []
              (lit ''Failed to create ad group:'')) w)"

definition direct_create_text_ad ::
  "pyrt \<Rightarrow> network \<Rightarrow> CreateTextAdInput \<Rightarrow> world \<Rightarrow> pystr \<times> world" where
  "direct_create_text_ad rt net params w =
     (let text_ad =
            JObj ([(lit ''Title'', JStr (ca_title params)),
                   (lit ''Text'', JStr (ca_text params)),
                   (lit ''Href'', JStr (ca_href params)),
                   (lit ''Mobile'', JStr (if ca_mobile params then lit ''YES'' else lit ''NO''))] @
                  str_entry (lit ''Title2'') (ca_title2 params));
          ad = JObj [(lit ''AdGroupId'', JInt (ca_adgroup_id params)), (lit ''TextAd'', text_ad)]
      in direct_call rt net (lit ''ads'') (lit ''add'') (JObj [(lit ''Ads'', JArr [ad])]) False
           (render_created rt (lit ''Ad created successfully. ID: '')
              (NL @ NL @ lit ''Note: Submit for moderation using direct_moderate_ads.'')
              (lit ''Failed to create ad:'')) w)"

text \<open>Adding keywords: the bid, when given, is converted for every keyword in turn.\<close>

definition keywords_list :: "pyrt \<Rightarrow> AddKeywordsInput \<Rightarrow> exn + json list" where
  "keywords_list rt params =
     mapE (\<lambda>kw.
             bindE (case ak_bid params of
                      None \<Rightarrow> Inr []
                    | Some b \<Rightarrow>
                        if truthy (JFloat b) then
                          bindE (micros rt (JFloat b)) (\<lambda>m. Inr [(lit ''Bid'', m)])
                        else Inr []) (\<lambda>bid.
             Inr (JObj ([(lit ''Keyword'', JStr kw), (lit ''AdGroupId'', JInt (ak_adgroup_id params))] @ bid))))
       (ak_keywords params)"

definition render_added :: "pyrt \<Rightarrow> json \<Rightarrow> exn + pystr" where
  "render_added rt result =
     bindE (result_list result (lit ''AddResults'')) (\<lambda>add_results.
     bindE (py_iter add_results) (\<lambda>rs.
     bindE (mapE strict_success rs) (\<lambda>success.
     bindE (mapE item_messages rs) (\<lambda>errors.
     Inr (lit ''Successfully added '' @ int_str (int (length (concat success))) @ lit '' keyword(s).'' @
          (if concat success \<noteq> [] then
             NL @ lit ''IDs: '' @ join (lit '', '') (map (py_str rt) (concat success))
           else []) @
          (if concat errors \<noteq> [] then
             NL @ NL @ lit ''Errors:'' @ NL @ bullet_lines rt (concat errors)
           else []))))))"

definition direct_add_keywords ::
  "pyrt \<Rightarrow> network \<Rightarrow> AddKeywordsInput \<Rightarrow> world \<Rightarrow> pystr \<times> world" where
  "direct_add_keywords rt net params w =
     (case keywords_list rt params of
        Inl e \<Rightarrow> (handle_api_error rt e, w)
      | Inr kws \<Rightarrow>
          direct_call rt net (lit ''keywords'') (lit ''add'') (JObj [(lit ''Keywords'', JArr kws)]) False
            (render_added rt) w)"

text \<open>Setting bids: every entry needs a \<open>keyword_id\<close>; the bids that are given and truthy
  are converted.\<close>

definition bid_entry :: "pyrt \<Rightarrow> json \<Rightarrow> pystr \<Rightarrow> pystr \<Rightarrow> exn + (pystr \<times> json) list" where
  "bid_entry rt kb key out_key =
     bindE (py_get kb key JNull) (\<lambda>b.
     if truthy b then
       bindE (py_getitem kb key) (\<lambda>x.
       bindE (micros rt x) (\<lambda>m. Inr [(out_key, m)]))
     else Inr [])"

definition bid_item :: "pyrt \<Rightarrow> json \<Rightarrow> exn + json" where
  "bid_item rt kb =
     bindE (py_getitem kb (lit ''keyword_id'')) (\<lambda>kid.
     bindE (bid_entry rt kb (lit ''search_bid'') (lit ''SearchBid'')) (\<lambda>sb.
     bindE (bid_entry rt kb (lit ''network_bid'') (lit ''NetworkBid'')) (\<lambda>nb.
     Inr (JObj ([(lit ''KeywordId'', kid)] @ sb @ nb)))))"

definition bid_success :: "json \<Rightarrow> exn + json list" where
  "bid_success r =
     bindE (py_get r (lit ''KeywordId'') JNull) (\<lambda>i.
     if truthy i then
       bindE (py_get r (lit ''Errors'') JNull) (\<lambda>e.
       if \<not> truthy e then bindE (py_getitem r (lit ''KeywordId'')) (\<lambda>x. Inr [x]) else Inr [])
     else Inr [])"

definition render_bids :: "json \<Rightarrow> exn + pystr" where
  "render_bids result =
     bindE (result_list result (lit ''SetResults'')) (\<lambda>set_results.
     bindE (py_iter set_results) (\<lambda>rs.
     bindE (mapE bid_success rs) (\<lambda>success.
     Inr (lit ''Successfully updated bids for '' @ int_str (int (length (concat success)))
          @ lit '' keyword(s).''))))"

definition direct_set_keyword_bids ::
  "pyrt \<Rightarrow> network \<Rightarrow> SetKeywordBidsInput \<Rightarrow> world \<Rightarrow> pystr \<times> world" where
  "direct_set_keyword_bids rt net params w =
     (case mapE (bid_item rt) (keyword_bids params) of
        Inl e \<Rightarrow> (handle_api_error rt e, w)
      | Inr items \<Rightarrow>
          direct_call rt net (lit ''keywordbids'') (lit ''set'') (JObj [(lit ''KeywordBids'', JArr items)]) False
            render_bids w)"

subsection \<open>Analytics operations\<close>

definition metrika_call ::
  "pyrt \<Rightarrow> network \<Rightarrow> pystr \<Rightarrow> pystr \<Rightarrow> json option \<Rightarrow> json option \<Rightarrow> (json \<Rightarrow> exn + pystr)
     \<Rightarrow> world \<Rightarrow> pystr \<times> world" where
  "metrika_call rt net endpoint method params data render w =
     (case metrika_request net endpoint method params data w of
        (Inl e, w') \<Rightarrow> (handle_api_error rt e, w')
      | (Inr result, w') \<Rightarrow>
          (case render result of
             Inl e \<Rightarrow> (handle_api_error rt e, w')
           | Inr s \<Rightarrow> (s, w')))"

record GetCountersInput =
  gn_favorite :: "bool option"
  gn_search_string :: "pystr option"
  gn_response_format :: ResponseFormat

record CreateCounterInput =
  cc_name :: pystr
  cc_site :: pystr

record CreateGoalInput =
  cl_counter_id :: int
  cl_name :: pystr
  cl_goal_type :: pystr
  cl_conditions :: "(pystr \<times> pystr) list list"

record MetrikaReportInput =
  mr_counter_id :: int
  mr_metrics :: "pystr list"
  mr_dimensions :: "pystr list option"
  mr_date1 :: "pystr option"
  mr_date2 :: "pystr option"
  mr_filters :: "pystr option"
  mr_sort :: "pystr option"
  mr_limit :: int
  mr_response_format :: ResponseFormat

record MetrikaByTimeInput =
  mt_counter_id :: int
  mt_metrics :: "pystr list"
  mt_dimensions :: "pystr list option"
  mt_date1 :: "pystr option"
  mt_date2 :: "pystr option"
  mt_group :: MetrikaGroupType
  mt_response_format :: ResponseFormat

definition joined_entry :: "pystr \<Rightarrow> pystr list option \<Rightarrow> (pystr \<times> json) list" where
  "joined_entry key v =
     (case v of
        None \<Rightarrow> []
      | Some xs \<Rightarrow> if xs = [] then [] else [(key, JStr (join (lit '','') xs))])"

definition metrika_get_counters ::
  "pyrt \<Rightarrow> network \<Rightarrow> GetCountersInput \<Rightarrow> world \<Rightarrow> pystr \<times> world" where
  "metrika_get_counters rt net params w =
     (let query_params =
            (case gn_favorite params of
               None \<Rightarrow> []
             | Some b \<Rightarrow> [(lit ''favorite'', JStr (if b then lit ''true'' else lit ''false''))]) @
            str_entry (lit ''search_string'') (gn_search_string params)
      in metrika_call rt net (lit ''/management/v1/counters'') (lit ''GET'') (Some (JObj query_params)) None
           (\<lambda>result.
              bindE (py_get result (lit ''counters'') (JArr [])) (\<lambda>counters.
              if gn_response_format params = JSON then
                bindE (py_len counters) (\<lambda>n.
                bindE (py_get result (lit ''rows'') (JInt (int n))) (\<lambda>total.
                Inr (json_dumps rt (JObj [(lit ''counters'', counters), (lit ''total'', total)]))))
              else format_metrika_counters_markdown rt counters)) w)"

text \<open>The details of one counter, rendered in the operation itself.\<close>

definition counter_details :: "pyrt \<Rightarrow> json \<Rightarrow> exn + pystr" where
  "counter_details rt counter =
     bindE (fget rt counter (lit ''name'') (JStr (lit ''Unnamed''))) (\<lambda>name.
     bindE (fget rt counter (lit ''id'') JNull) (\<lambda>ident.
     bindE (py_get counter (lit ''site2'') (JObj [])) (\<lambda>site2.
     bindE (fget rt site2 (lit ''site'') NA) (\<lambda>site.
     bindE (fget rt counter (lit ''status'') NA) (\<lambda>status.
     bindE (fget rt counter (lit ''code_status'') NA) (\<lambda>code_status.
     bindE (fget rt counter (lit ''owner_login'') NA) (\<lambda>owner.
     bindE (fget rt counter (lit ''create_time'') NA) (\<lambda>created.
     bindE (py_get counter (lit ''webvisor'') JNull) (\<lambda>wv.
     bindE (if truthy wv then
              bindE (py_getitem counter (lit ''webvisor'')) (\<lambda>webvisor.
              bindE (fget rt webvisor (lit ''wv_version'') NA) (\<lambda>version.
              bindE (fget rt webvisor (lit ''arch_enabled'') (JBool False)) (\<lambda>enabled.
              Inr [NL @ lit ''## Webvisor'', lit ''- **Version**: '' @ version,
                   lit ''- **Enabled**: '' @ enabled])))
            else Inr []) (\<lambda>wv_lines.
     bindE (py_get counter (lit ''goals'') (JArr [])) (\<lambda>goals.
     bindE (if truthy goals then
              bindE (py_len goals) (\<lambda>n.
              bindE (py_slice_to 10 goals) (\<lambda>shown.
              bindE (py_iter shown) (\<lambda>gs.
              bindE (mapE (\<lambda>goal. bindE (fget rt goal (lit ''name'') (JStr (lit ''Unnamed''))) (\<lambda>gn.
                                   bindE (fget rt goal (lit ''id'') JNull) (\<lambda>gi.
                                   Inr (lit ''- '' @ gn @ lit '' (ID: '' @ gi @ lit '')'')))) gs) (\<lambda>ls.
              Inr ((NL @ lit ''## Goals ('' @ int_str (int n) @ lit '')'') # ls)))))
            else Inr []) (\<lambda>goal_lines.
     Inr (join NL
            ([lit ''# Counter: '' @ name @ lit '' (ID: '' @ ident @ lit '')'',
              NL @ lit ''## Basic Info'',
              lit ''- **Site**: '' @ site,
              lit ''- **Status**: '' @ status,
              lit ''- **Code Status**: '' @ code_status,
              lit ''- **Owner**: '' @ owner,
              lit ''- **Created**: '' @ created]
             @ wv_lines @ goal_lines))))))))))))))"

definition metrika_get_counter ::
  "pyrt \<Rightarrow> network \<Rightarrow> GetCounterInput \<Rightarrow> world \<Rightarrow> pystr \<times> world" where
  "metrika_get_counter rt net params w =
     metrika_call rt net (lit ''/management/v1/counter/'' @ int_str (counter_id params)) (lit ''GET'') None None
       (\<lambda>result.
          bindE (py_get result (lit ''counter'') (JObj [])) (\<lambda>counter.
          if response_format params = JSON then Inr (json_dumps rt counter)
          else counter_details rt counter)) w"

text \<open>The creation of a counter answers with the tracking snippet for the new Id.\<close>

definition DQ :: pystr where
  "DQ = [34]"

definition tracking_code :: "pystr \<Rightarrow> pystr list" where
  "tracking_code ident =
     [lit ''Add this tracking code to your website:'',
      lit ''```html'',
      lit ''<!-- Yandex.Metrika counter -->'',
      lit ''<script type='' @ DQ @ lit ''text/javascript'' @ DQ @ lit ''>'',
      lit ''   (function(m,e,t,r,i,k,a){m[i]=m[i]||function(){(m[i].a=m[i].a||[]).push(arguments)};'',
      lit ''   m[i].l=1*new Date();'',
      lit ''   for (var j = 0; j < document.scripts.length; j++) {if (document.scripts[j].src === r) { return; }}'',
      lit ''   k=e.createElement(t),a=e.getElementsByTagName(t)[0],k.async=1,k.src=r,a.parentNode.insertBefore(k,a)})'',
      lit ''   (window, document, '' @ DQ @ lit ''script'' @ DQ @ lit '', '' @ DQ
        @ lit ''https://mc.yandex.ru/metrika/tag.js'' @ DQ @ lit '', '' @ DQ @ lit ''ym'' @ DQ @ lit '');'',
      [],
      lit ''   ym('' @ ident @ lit '', '' @ DQ @ lit ''init'' @ DQ @ lit '', {'',
      lit ''        clickmap:true,'',
      lit ''        trackLinks:true,'',
      lit ''        accurateTrackBounce:true'',
      lit ''   });'',
      lit ''</script>'',
      lit ''```'']"

definition counter_created :: "pyrt \<Rightarrow> json \<Rightarrow> exn + pystr" where
  "counter_created rt result =
     bindE (py_get result (lit ''counter'') (JObj [])) (\<lambda>counter.
     bindE (fget rt counter (lit ''id'') JNull) (\<lambda>ident.
     bindE (fget rt counter (lit ''name'') JNull) (\<lambda>name.
     bindE (py_get counter (lit ''site2'') (JObj [])) (\<lambda>site2.
     bindE (fget rt site2 (lit ''site'') JNull) (\<lambda>site.
     bindE (fget rt counter (lit ''id'') JNull) (\<lambda>ident2.
     Inr (join NL
            ([lit ''Counter created successfully!'',
              [],
              lit ''**ID**: '' @ ident,
              lit ''**Name**: '' @ name,
              lit ''**Site**: '' @ site,
              []]
             @ tracking_code ident2))))))))"

definition metrika_create_counter ::
  "pyrt \<Rightarrow> network \<Rightarrow> CreateCounterInput \<Rightarrow> world \<Rightarrow> pystr \<times> world" where
  "metrika_create_counter rt net params w =
     (let data = JObj [(lit ''counter'',
                        JObj [(lit ''name'', JStr (cc_name params)),
                              (lit ''site2'', JObj [(lit ''site'', JStr (cc_site params))])])]
      in metrika_call rt net (lit ''/management/v1/counters'') (lit ''POST'') None (Some data)
           (counter_created rt) w)"

definition goal_lines :: "pyrt \<Rightarrow> json \<Rightarrow> exn + pystr list" where
  "goal_lines rt goal =
     bindE (fget rt goal (lit ''name'') (JStr (lit ''Unnamed''))) (\<lambda>name.
     bindE (fget rt goal (lit ''id'') JNull) (\<lambda>ident.
     bindE (fget rt goal (lit ''type'') NA) (\<lambda>ty.
     bindE (py_get goal (lit ''conditions'') (JArr [])) (\<lambda>conditions.
     bindE (if truthy conditions then
              bindE (py_iter conditions) (\<lambda>cs.
              bindE (mapE (\<lambda>cond. bindE (fget rt cond (lit ''type'') NA) (\<lambda>ct.
                                   bindE (py_get cond (lit ''value'') NA) (\<lambda>v.
                                   bindE (fget rt cond (lit ''url'') v) (\<lambda>u.
                                   Inr (lit ''  - '' @ ct @ lit '': '' @ u))))) cs) (\<lambda>ls.
              Inr (lit ''- **Conditions**:'' # ls)))
            else Inr []) (\<lambda>cond_lines.
     Inr ([lit ''## '' @ name @ lit '' (ID: '' @ ident @ lit '')'',
           lit ''- **Type**: '' @ ty]
          @ cond_lines @ [[]]))))))"

definition metrika_get_goals ::
  "pyrt \<Rightarrow> network \<Rightarrow> GetCounterInput \<Rightarrow> world \<Rightarrow> pystr \<times> world" where
  "metrika_get_goals rt net params w =
     metrika_call rt net
       (lit ''/management/v1/counter/'' @ int_str (counter_id params) @ lit ''/goals'') (lit ''GET'') None None
       (\<lambda>result.
          bindE (py_get result (lit ''goals'') (JArr [])) (\<lambda>goals.
          if response_format params = JSON then
            bindE (py_len goals) (\<lambda>n.
            Inr (json_dumps rt (JObj [(lit ''goals'', goals), (lit ''total'', JInt (int n))])))
          else if \<not> truthy goals then Inr (lit ''No goals configured for this counter.'')
          else
            bindE (py_iter goals) (\<lambda>gs.
            bindE (mapE (goal_lines rt) gs) (\<lambda>ls.
            Inr (join NL ((lit ''# Goals for Counter '' @ int_str (counter_id params) @ NL) # concat ls)))))) w"

definition metrika_create_goal ::
  "pyrt \<Rightarrow> network \<Rightarrow> CreateGoalInput \<Rightarrow> world \<Rightarrow> pystr \<times> world" where
  "metrika_create_goal rt net params w =
     (let data = JObj [(lit ''goal'',
                        JObj [(lit ''name'', JStr (cl_name params)),
                              (lit ''type'', JStr (cl_goal_type params)),
                              (lit ''conditions'',
                               JArr (map (\<lambda>c. JObj (map (\<lambda>kv. (fst kv, JStr (snd kv))) c))
                                       (cl_conditions params)))])]
      in metrika_call rt net
           (lit ''/management/v1/counter/'' @ int_str (cl_counter_id params) @ lit ''/goals'') (lit ''POST'')
           None (Some data)
           (\<lambda>result.
              bindE (py_get result (lit ''goal'') (JObj [])) (\<lambda>goal.
              bindE (fget rt goal (lit ''id'') JNull) (\<lambda>ident.
              bindE (fget rt goal (lit ''name'') JNull) (\<lambda>name.
              bindE (fget rt goal (lit ''type'') JNull) (\<lambda>ty.
              Inr (lit ''Goal created successfully!'' @ NL @ NL @ lit ''**ID**: '' @ ident @ NL @
                   lit ''**Name**: '' @ name @ NL @ lit ''**Type**: '' @ ty)))))) w)"

definition metrika_get_report ::
  "pyrt \<Rightarrow> network \<Rightarrow> MetrikaReportInput \<Rightarrow> world \<Rightarrow> pystr \<times> world" where
  "metrika_get_report rt net params w =
     (let query_params =
            [(lit ''id'', JInt (mr_counter_id params)),
             (lit ''metrics'', JStr (join (lit '','') (mr_metrics params))),
             (lit ''limit'', JInt (mr_limit params))] @
            joined_entry (lit ''dimensions'') (mr_dimensions params) @
            str_entry (lit ''date1'') (mr_date1 params) @
            str_entry (lit ''date2'') (mr_date2 params) @
            str_entry (lit ''filters'') (mr_filters params) @
            str_entry (lit ''sort'') (mr_sort params)
      in metrika_call rt net (lit ''/stat/v1/data'') (lit ''GET'') (Some (JObj query_params)) None
           (\<lambda>result.
              if mr_response_format params = JSON then Inr (json_dumps rt result)
              else format_metrika_report_markdown rt result) w)"

text \<open>The time series of one data row: one line per time interval, with the value of
  every metric at that interval (0 where the metric's series is shorter).\<close>

definition interval_str :: "pyrt \<Rightarrow> json \<Rightarrow> pystr" where
  "interval_str rt interval =
     (case interval of
        JArr ts \<Rightarrow> join (lit '' '' @ [8212] @ lit '' '') (map (py_str rt) ts)
      | _ \<Rightarrow> py_str rt interval)"

definition value_at :: "nat \<Rightarrow> json \<Rightarrow> exn + json" where
  "value_at i m = bindE (py_len m) (\<lambda>n. if i < n then py_index m i else Inr (JInt 0))"

definition interval_line :: "pyrt \<Rightarrow> json \<Rightarrow> nat \<times> json \<Rightarrow> exn + pystr" where
  "interval_line rt metrics it =
     bindE (py_iter metrics) (\<lambda>ms.
     bindE (mapE (value_at (fst it)) ms) (\<lambda>vals.
     bindE (mapE (\<lambda>v. format_spec rt v (lit '',.2f'')) vals) (\<lambda>ss.
     Inr (lit ''- '' @ interval_str rt (snd it) @ lit '': '' @ join (lit '', '') ss))))"

definition series_lines :: "pyrt \<Rightarrow> json \<Rightarrow> json \<Rightarrow> exn + pystr list" where
  "series_lines rt time_intervals row =
     bindE (py_get row (lit ''dimensions'') (JArr [])) (\<lambda>dims.
     bindE (py_get row (lit ''metrics'') (JArr [JArr []])) (\<lambda>metrics.
     bindE (dims_str rt dims) (\<lambda>ds.
     bindE (if truthy time_intervals \<and> truthy metrics then
              bindE (py_iter time_intervals) (\<lambda>tis.
              mapE (interval_line rt metrics) (enumerate 0 tis))
            else Inr []) (\<lambda>ls.
     Inr ([lit ''## '' @ ds] @ ls @ [[]])))))"

definition time_report :: "pyrt \<Rightarrow> MetrikaGroupType \<Rightarrow> json \<Rightarrow> exn + pystr" where
  "time_report rt grp result =
     bindE (py_get result (lit ''query'') (JObj [])) (\<lambda>query.
     bindE (fget rt query (lit ''date1'') NA) (\<lambda>date1.
     bindE (fget rt query (lit ''date2'') NA) (\<lambda>date2.
     bindE (py_get result (lit ''time_intervals'') (JArr [])) (\<lambda>time_intervals.
     bindE (py_get result (lit ''data'') (JArr [])) (\<lambda>data.
     bindE (if truthy data then
              bindE (py_iter data) (\<lambda>rows.
              bindE (mapE (series_lines rt time_intervals) rows) (\<lambda>ls. Inr (concat ls)))
            else Inr []) (\<lambda>row_lines.
     Inr (join NL
            ([lit ''# Time-Based Report'' @ NL,
              lit ''**Period**: '' @ date1 @ lit '' '' @ [8212] @ lit '' '' @ date2,
              lit ''**Grouping**: '' @ MetrikaGroupType_value grp @ NL]
             @ row_lines))))))))"

definition metrika_get_report_by_time ::
  "pyrt \<Rightarrow> network \<Rightarrow> MetrikaByTimeInput \<Rightarrow> world \<Rightarrow> pystr \<times> world" where
  "metrika_get_report_by_time rt net params w =
     (let query_params =
            [(lit ''id'', JInt (mt_counter_id params)),
             (lit ''metrics'', JStr (join (lit '','') (mt_metrics params))),
             (lit ''group'', JStr (MetrikaGroupType_value (mt_group params)))] @
            joined_entry (lit ''dimensions'') (mt_dimensions params) @
            str_entry (lit ''date1'') (mt_date1 params) @
            str_entry (lit ''date2'') (mt_date2 params)
      in metrika_call rt net (lit ''/stat/v1/data/bytime'') (lit ''GET'') (Some (JObj query_params)) None
           (\<lambda>result.
              if mt_response_format params = JSON then Inr (json_dumps rt result)
              else time_report rt (mt_group params) result) w)"

subsection \<open>The catalog\<close>

text \<open>One call of a tool: the operation and its validated input.\<close>

datatype tool_call =
    DirectGetCampaigns GetCampaignsInput
  | DirectSuspendCampaigns ManageCampaignInput
  | DirectResumeCampaigns ManageCampaignInput
  | DirectArchiveCampaigns ManageCampaignInput
  | DirectUnarchiveCampaigns ManageCampaignInput
  | DirectDeleteCampaigns ManageCampaignInput
  | DirectUpdateCampaign UpdateCampaignInput
  | DirectGetAdgroups GetAdGroupsInput
  | DirectCreateAdgroup CreateAdGroupInput
  | DirectGetAds GetAdsInput
  | DirectCreateTextAd CreateTextAdInput
  | DirectModerateAds ManageAdInput
  | DirectSuspendAds ManageAdInput
  | DirectResumeAds ManageAdInput
  | DirectGetKeywords GetKeywordsInput
  | DirectAddKeywords AddKeywordsInput
  | DirectSetKeywordBids SetKeywordBidsInput
  | DirectGetStatistics DirectReportInput
  | DirectUpdateAdgroup UpdateAdGroupInput
  | DirectUpdateAd UpdateTextAdInput
  | DirectDeleteKeywords ManageKeywordInput
  | DirectDeleteAds ManageAdInput
  | DirectArchiveAds ManageAdInput
  | DirectUnarchiveAds ManageAdInput
  | MetrikaGetCounters GetCountersInput
  | MetrikaGetCounter GetCounterInput
  | MetrikaCreateCounter CreateCounterInput
  | MetrikaGetGoals GetCounterInput
  | MetrikaCreateGoal CreateGoalInput
  | MetrikaGetReport MetrikaReportInput
  | MetrikaGetReportByTime MetrikaByTimeInput
  | MetrikaDeleteCounter GetCounterInput

definition returns_str :: "pystr \<times> world \<Rightarrow> pystr option \<times> world" where
  "returns_str x = (Some (fst x), snd x)"

fun run_tool :: "pyrt \<Rightarrow> network \<Rightarrow> tool_call \<Rightarrow> world \<Rightarrow> pystr option \<times> world" where
  "run_tool rt net (DirectGetCampaigns p) w = returns_str (direct_get_campaigns rt net p w)"
| "run_tool rt net (DirectSuspendCampaigns p) w = returns_str (direct_suspend_campaigns rt net p w)"
| "run_tool rt net (DirectResumeCampaigns p) w = returns_str (direct_resume_campaigns rt net p w)"
| "run_tool rt net (DirectArchiveCampaigns p) w = returns_str (direct_archive_campaigns rt net p w)"
| "run_tool rt net (DirectUnarchiveCampaigns p) w = returns_str (direct_unarchive_campaigns rt net p w)"
| "run_tool rt net (DirectDeleteCampaigns p) w = returns_str (direct_delete_campaigns rt net p w)"
| "run_tool rt net (DirectUpdateCampaign p) w = returns_str (direct_update_campaign rt net p w)"
| "run_tool rt net (DirectGetAdgroups p) w = returns_str (direct_get_adgroups rt net p w)"
| "run_tool rt net (DirectCreateAdgroup p) w = returns_str (direct_create_adgroup rt net p w)"
| "run_tool rt net (DirectGetAds p) w = returns_str (direct_get_ads rt net p w)"
| "run_tool rt net (DirectCreateTextAd p) w = returns_str (direct_create_text_ad rt net p w)"
| "run_tool rt net (DirectModerateAds p) w = returns_str (direct_moderate_ads rt net p w)"
| "run_tool rt net (DirectSuspendAds p) w = returns_str (direct_suspend_ads rt net p w)"
| "run_tool rt net (DirectResumeAds p) w = returns_str (direct_resume_ads rt net p w)"
| "run_tool rt net (DirectGetKeywords p) w = returns_str (direct_get_keywords rt net p w)"
| "run_tool rt net (DirectAddKeywords p) w = returns_str (direct_add_keywords rt net p w)"
| "run_tool rt net (DirectSetKeywordBids p) w = returns_str (direct_set_keyword_bids rt net p w)"
| "run_tool rt net (DirectGetStatistics p) w = direct_get_statistics rt net p w"
| "run_tool rt net (DirectUpdateAdgroup p) w = returns_str (direct_update_adgroup rt net p w)"
| "run_tool rt net (DirectUpdateAd p) w = returns_str (direct_update_ad rt net p w)"
| "run_tool rt net (DirectDeleteKeywords p) w = returns_str (direct_delete_keywords rt net p w)"
| "run_tool rt net (DirectDeleteAds p) w = returns_str (direct_delete_ads rt net p w)"
| "run_tool rt net (DirectArchiveAds p) w = returns_str (direct_archive_ads rt net p w)"
| "run_tool rt net (DirectUnarchiveAds p) w = returns_str (direct_unarchive_ads rt net p w)"
| "run_tool rt net (MetrikaGetCounters p) w = returns_str (metrika_get_counters rt net p w)"
| "run_tool rt net (MetrikaGetCounter p) w = returns_str (metrika_get_counter rt net p w)"
| "run_tool rt net (MetrikaCreateCounter p) w = returns_str (metrika_create_counter rt net p w)"
| "run_tool rt net (MetrikaGetGoals p) w = returns_str (metrika_get_goals rt net p w)"
| "run_tool rt net (MetrikaCreateGoal p) w = returns_str (metrika_create_goal rt net p w)"
| "run_tool rt net (MetrikaGetReport p) w = returns_str (metrika_get_report rt net p w)"
| "run_tool rt net (MetrikaGetReportByTime p) w = returns_str (metrika_get_report_by_time rt net p w)"
| "run_tool rt net (MetrikaDeleteCounter p) w = returns_str (metrika_delete_counter rt net p w)"

text \<open>The token a tool needs: the analytics token for the analytics tools, the ads token
  for all others.\<close>

fun uses_metrika :: "tool_call \<Rightarrow> bool" where
  "uses_metrika (MetrikaGetCounters p) = True"
| "uses_metrika (MetrikaGetCounter p) = True"
| "uses_metrika (MetrikaCreateCounter p) = True"
| "uses_metrika (MetrikaGetGoals p) = True"
| "uses_metrika (MetrikaCreateGoal p) = True"
| "uses_metrika (MetrikaGetReport p) = True"
| "uses_metrika (MetrikaGetReportByTime p) = True"
| "uses_metrika (MetrikaDeleteCounter p) = True"
| "uses_metrika c = False"

definition required_token :: "tool_call \<Rightarrow> YandexAPIClient \<Rightarrow> pystr" where
  "required_token c client = (if uses_metrika c then get_metrika_token client else get_direct_token client)"

text \<open>
  Whether a call gets as far as the client: the text-ad update returns before it when no
  field is given, and three operations convert amounts while they build the request,
  which can raise.
\<close>

definition succeeds :: "exn + 'a \<Rightarrow> bool" where
  "succeeds x = (case x of Inl e \<Rightarrow> False | Inr v \<Rightarrow> True)"

fun reaches_client :: "pyrt \<Rightarrow> tool_call \<Rightarrow> bool" where
  "reaches_client rt (DirectUpdateAd p) =
     (given (title p) \<or> given (title2 p) \<or> given (text' p) \<or> given (href p))"
| "reaches_client rt (DirectUpdateCampaign p) = succeeds (campaign_update rt p)"
| "reaches_client rt (DirectAddKeywords p) = succeeds (keywords_list rt p)"
| "reaches_client rt (DirectSetKeywordBids p) = succeeds (mapE (bid_item rt) (keyword_bids p))"
| "reaches_client rt c = True"

section \<open>Basic facts\<close>

lemma lit_Nil [simp]: "lit [] = []"
  by (simp add: lit_def)

lemma lit_eq_iff [simp]: "lit s = lit t \<longleftrightarrow> s = t"
proof -
  have "inj (of_char :: char \<Rightarrow> nat)"
    by (rule injI) simp
  then show ?thesis
    by (simp add: lit_def inj_map_eq_map)
qed

lemma lit_eq_Nil_iff [simp]: "lit s = [] \<longleftrightarrow> s = []"
  by (simp add: lit_def)

lemma lit_append: "lit (a @ b) = lit a @ lit b"
  by (simp add: lit_def)

lemma int_str_555: "int_str 555 = lit ''555''"
  by (simp add: int_str_def nat_digits.simps lit_def)

section \<open>Base URL of the ads client\<close>

text \<open>
  Claim C10. Whenever the sandbox flag is set the sandbox base URL is used, whatever the
  alternate-version flag says; the v501 host is selected only when sandbox mode is off and
  the flag is set, the v5 host only when both are off. The three hosts are pairwise
  different, so every pair of flags selects exactly one of them.
\<close>

theorem get_direct_url_selection:
  "(use_sandbox c \<longrightarrow> get_direct_url c v = YANDEX_DIRECT_SANDBOX_URL) \<and>
   (get_direct_url c v = YANDEX_DIRECT_API_URL_V501 \<longleftrightarrow> \<not> use_sandbox c \<and> v) \<and>
   (get_direct_url c v = YANDEX_DIRECT_API_URL \<longleftrightarrow> \<not> use_sandbox c \<and> \<not> v) \<and>
   distinct [YANDEX_DIRECT_API_URL, YANDEX_DIRECT_API_URL_V501, YANDEX_DIRECT_SANDBOX_URL]"
  by (simp add: get_direct_url_def YANDEX_DIRECT_API_URL_def YANDEX_DIRECT_API_URL_V501_def
      YANDEX_DIRECT_SANDBOX_URL_def)

theorem get_direct_url_selection_witness:
  "use_sandbox \<lparr>direct_token = lit ''t'', metrika_token = [], unified_token = [],
                 client_login = [], use_sandbox = True\<rparr> \<and>
   get_direct_url \<lparr>direct_token = lit ''t'', metrika_token = [], unified_token = [],
                   client_login = [], use_sandbox = True\<rparr> True = YANDEX_DIRECT_SANDBOX_URL"
  using get_direct_url_selection
    [of "\<lparr>direct_token = lit ''t'', metrika_token = [], unified_token = [],
          client_login = [], use_sandbox = True\<rparr>" True]
  by simp

section \<open>The analytics client\<close>

text \<open>
  Claim C7. A call of the analytics client with an HTTP method other than GET, POST, PUT
  and DELETE raises \<open>ValueError\<close> (the configuration error of the classifier) and leaves
  the world as it was: no request is logged and the client is unchanged. With a token
  configured the message names the unsupported method.
\<close>

theorem metrika_request_unsupported_method:
  assumes "method \<notin> {lit ''GET'', lit ''POST'', lit ''PUT'', lit ''DELETE''}"
  shows "\<exists>msg. metrika_request net endpoint method params data w = (Inl (ValueError msg), w) \<and>
           handle_api_error rt (ValueError msg) = lit ''Configuration Error: '' @ msg \<and>
           (get_metrika_token (api_client w) \<noteq> [] \<longrightarrow>
              msg = lit ''Unsupported HTTP method: '' @ method)"
  using assms by (simp add: metrika_request_def Let_def handle_api_error_def)

theorem metrika_request_unsupported_method_witness:
  "lit ''PATCH'' \<notin> {lit ''GET'', lit ''POST'', lit ''PUT'', lit ''DELETE''} \<and>
   (\<exists>msg. metrika_request (\<lambda>rq. Failed TimeoutException) (lit ''/stat/v1/data'') (lit ''PATCH'')
            None None
            \<lparr>api_client = \<lparr>direct_token = [], metrika_token = lit ''t'', unified_token = [],
                            client_login = [], use_sandbox = False\<rparr>, sent = []\<rparr>
          = (Inl (ValueError msg),
             \<lparr>api_client = \<lparr>direct_token = [], metrika_token = lit ''t'', unified_token = [],
                             client_login = [], use_sandbox = False\<rparr>, sent = []\<rparr>) \<and>
          msg = lit ''Unsupported HTTP method: '' @ lit ''PATCH'')"
proof -
  have h: "lit ''PATCH'' \<notin> {lit ''GET'', lit ''POST'', lit ''PUT'', lit ''DELETE''}"
    by simp
  show ?thesis
    using h metrika_request_unsupported_method [OF h,
        of "\<lambda>rq. Failed TimeoutException" "lit ''/stat/v1/data''" None None
           "\<lparr>api_client = \<lparr>direct_token = [], metrika_token = lit ''t'', unified_token = [],
                            client_login = [], use_sandbox = False\<rparr>, sent = []\<rparr>"
           "sample_rt"]
    by (auto simp add: get_metrika_token_def)
qed

section \<open>Deleting a counter\<close>

text \<open>
  Claim C8. The counter-deletion operation called with counter id 555, with an analytics
  token configured and a vendor that answers the DELETE request for that counter with
  status 204, returns exactly "Counter 555 deleted successfully.".
\<close>

theorem metrika_delete_counter_204:
  assumes "counter_id p = 555"
    and "get_metrika_token (api_client w) \<noteq> []"
    and "\<And>rq. req_method rq = lit ''DELETE'' \<Longrightarrow>
           req_url rq = YANDEX_METRIKA_API_URL @ lit ''/management/v1/counter/555'' \<Longrightarrow>
           \<exists>r. net rq = Responded r \<and> status_code r = 204"
  shows "fst (metrika_delete_counter rt net p w) = lit ''Counter 555 deleted successfully.''"
proof -
  let ?rq = "\<lparr>req_method = lit ''DELETE'',
              req_url = YANDEX_METRIKA_API_URL @ lit ''/management/v1/counter/555'',
              req_headers = [(lit ''Authorization'', lit ''OAuth '' @ get_metrika_token (api_client w)),
                             (lit ''Content-Type'', lit ''application/json'')],
              req_params = None, req_json = None, req_timeout = DEFAULT_TIMEOUT\<rparr>"
  obtain r where r: "net ?rq = Responded r" "status_code r = 204"
    using assms(3) [of ?rq] by auto
  show ?thesis
    using assms(1,2) r
    by (simp add: metrika_delete_counter_def metrika_request_def Let_def send_def int_str_555
        raise_for_status_def bindE_def lit_append [symmetric])
qed

theorem metrika_delete_counter_204_witness:
  "fst (metrika_delete_counter sample_rt
          (\<lambda>rq. Responded \<lparr>status_code = 204, text_body = [], json_body = Inl (lit ''Expecting value'')\<rparr>)
          \<lparr>counter_id = 555, response_format = MARKDOWN\<rparr>
          \<lparr>api_client = \<lparr>direct_token = [], metrika_token = lit ''t'', unified_token = [],
                          client_login = [], use_sandbox = False\<rparr>, sent = []\<rparr>)
   = lit ''Counter 555 deleted successfully.''"
  using metrika_delete_counter_204
    [of "\<lparr>counter_id = 555, response_format = MARKDOWN\<rparr>"
        "\<lparr>api_client = \<lparr>direct_token = [], metrika_token = lit ''t'', unified_token = [],
                          client_login = [], use_sandbox = False\<rparr>, sent = []\<rparr>"
        "\<lambda>rq. Responded \<lparr>status_code = 204, text_body = [], json_body = Inl (lit ''Expecting value'')\<rparr>"
        "sample_rt"]
  by (simp add: get_metrika_token_def)

lemma strip_with_all:
  assumes "list_all ws s"
  shows "strip_with ws s = []"
proof -
  have h: "dropWhile ws s = []"
    using assms by (induction s) simp_all
  show ?thesis
    unfolding strip_with_def h by simp
qed

section \<open>The error classifier on status errors\<close>

text \<open>
  Claim C6, as the code has it. The classifier is a function from exceptions to strings.
  On an HTTP status error whose body yields no vendor error string (it does not decode,
  is not of the expected shape, or has an empty \<open>error_string\<close>), the result is
  "API Error: " followed by the canned message for the statuses 400, 401, 403, 404, 429,
  500 and 503, and by "Request failed with status <status>" for every other status.
\<close>

theorem handle_api_error_status:
  assumes "vendor_error r = None"
  shows "handle_api_error rt (HTTPStatusError r) =
           lit ''API Error: '' @
           (if status_code r = 400 then lit ''Bad request. Check your parameters.''
            else if status_code r = 401 then lit ''Authentication failed. Check your API token.''
            else if status_code r = 403 then lit ''Access denied. Check permissions for this operation.''
            else if status_code r = 404 then lit ''Resource not found. Check the ID.''
            else if status_code r = 429 then lit ''Rate limit exceeded. Wait before making more requests.''
            else if status_code r = 500 then lit ''Server error. Try again later.''
            else if status_code r = 503 then lit ''Service unavailable. Try again later.''
            else lit ''Request failed with status '' @ int_str (status_code r))"
  using assms by (simp add: handle_api_error_def error_messages_def)

theorem handle_api_error_status_witness:
  "vendor_error \<lparr>status_code = 404, text_body = [], json_body = Inl (lit ''Expecting value'')\<rparr> = None \<and>
   handle_api_error sample_rt
     (HTTPStatusError \<lparr>status_code = 404, text_body = [], json_body = Inl (lit ''Expecting value'')\<rparr>)
   = lit ''API Error: Resource not found. Check the ID.''"
proof -
  have h: "vendor_error \<lparr>status_code = 404, text_body = [], json_body = Inl (lit ''Expecting value'')\<rparr> = None"
    by (simp add: vendor_error_def response_json_def bindE_def)
  show ?thesis
    using h handle_api_error_status [OF h, of "sample_rt"]
    by (simp add: lit_append [symmetric])
qed

text \<open>
  The claim as worded gives the bare string "Request failed with status <status>" for an
  unlisted status; at status 418 the classifier returns it behind the "API Error: " prefix.
\<close>

theorem handle_api_error_unlisted_counterexample:
  "vendor_error \<lparr>status_code = 418, text_body = [], json_body = Inl (lit ''Expecting value'')\<rparr> = None \<and>
   handle_api_error sample_rt
     (HTTPStatusError \<lparr>status_code = 418, text_body = [], json_body = Inl (lit ''Expecting value'')\<rparr>)
   = lit ''API Error: Request failed with status 418'' \<and>
   handle_api_error sample_rt
     (HTTPStatusError \<lparr>status_code = 418, text_body = [], json_body = Inl (lit ''Expecting value'')\<rparr>)
   \<noteq> lit ''Request failed with status 418''"
  by (simp add: vendor_error_def response_json_def bindE_def handle_api_error_def error_messages_def
      int_str_def nat_digits.simps lit_def)

section \<open>Updating a text ad\<close>

text \<open>
  Claim C9. When each of title, title2, text and href is absent or consists of whitespace
  only, the input passes the schema with every such field absent or empty, and the
  text-ad update returns "No fields specified for update." in an unchanged world: no
  request is sent.
\<close>

theorem direct_update_ad_no_fields:
  assumes "\<forall>f \<in> {title p, title2 p, text' p, href p}. f = None \<or> (\<exists>s. f = Some s \<and> list_all schema_isspace s)"
  shows "\<exists>p'. validate_UpdateTextAdInput p = Inr p' \<and>
           direct_update_ad rt net p' w = (lit ''No fields specified for update.'', w)"
proof -
  have v: "validate_str n m f = Inr (if f = None then None else Some [])"
    if "f = None \<or> (\<exists>s. f = Some s \<and> list_all schema_isspace s)" for n m f
    using that by (auto simp add: validate_str_def strip_with_all split: option.splits)
  have "validate_UpdateTextAdInput p =
          Inr (p\<lparr>title := if title p = None then None else Some [],
                 title2 := if title2 p = None then None else Some [],
                 text' := if text' p = None then None else Some [],
                 href := if href p = None then None else Some []\<rparr>)"
    using assms by (simp add: validate_UpdateTextAdInput_def v)
  then show ?thesis
    by (simp add: direct_update_ad_def given_def)
qed

theorem direct_update_ad_no_fields_witness:
  "(\<exists>p'. validate_UpdateTextAdInput \<lparr>ad_id = 7, title = Some (lit ''  ''), title2 = None, text' = Some [], href = None\<rparr> = Inr p' \<and>
      direct_update_ad sample_rt (\<lambda>rq. Failed TimeoutException) p'
        \<lparr>api_client = \<lparr>direct_token = lit ''t'', metrika_token = [], unified_token = [],
                        client_login = [], use_sandbox = False\<rparr>, sent = []\<rparr>
      = (lit ''No fields specified for update.'',
         \<lparr>api_client = \<lparr>direct_token = lit ''t'', metrika_token = [], unified_token = [],
                        client_login = [], use_sandbox = False\<rparr>, sent = []\<rparr>))"
proof -
  have h: "\<forall>f \<in> {title \<lparr>ad_id = 7, title = Some (lit ''  ''), title2 = None, text' = Some [], href = None\<rparr>,
                  title2 \<lparr>ad_id = 7, title = Some (lit ''  ''), title2 = None, text' = Some [], href = None\<rparr>,
                  text' \<lparr>ad_id = 7, title = Some (lit ''  ''), title2 = None, text' = Some [], href = None\<rparr>,
                  href \<lparr>ad_id = 7, title = Some (lit ''  ''), title2 = None, text' = Some [], href = None\<rparr>}.
             f = None \<or> (\<exists>s. f = Some s \<and> list_all schema_isspace s)"
    by (simp add: lit_def schema_isspace_def)
  show ?thesis
    using h direct_update_ad_no_fields [OF h,
        of "sample_rt" "\<lambda>rq. Failed TimeoutException"
           "\<lparr>api_client = \<lparr>direct_token = lit ''t'', metrika_token = [], unified_token = [],
                        client_login = [], use_sandbox = False\<rparr>, sent = []\<rparr>"]
    by simp
qed

section \<open>Formatting an empty collection\<close>

text \<open>
  Claim C5, as the code has it. Each of the five list formatters (campaigns, ads, ad
  groups, keywords, analytics counters) renders the empty list as its fixed sentence
  "No X found.". The two analytics report renderings (tabular and time series) have no
  such sentence: on a report without query, totals and data they render their title and
  the query section.
\<close>

theorem format_empty_collections:
  "format_campaigns_markdown rt (JArr []) = Inr (lit ''No campaigns found.'') \<and>
   format_ads_markdown rt (JArr []) = Inr (lit ''No ads found.'') \<and>
   format_adgroups_markdown rt (JArr []) = Inr (lit ''No ad groups found.'') \<and>
   format_keywords_markdown rt (JArr []) = Inr (lit ''No keywords found.'') \<and>
   format_metrika_counters_markdown rt (JArr []) = Inr (lit ''No counters found.'') \<and>
   format_metrika_report_markdown rt (JObj []) =
     Inr (lit ''# Metrika Report'' @ NL @ NL @ lit ''## Query Parameters'' @ NL @
          lit ''- **Period**: N/A '' @ [8212] @ lit '' N/A'' @ NL) \<and>
   time_report rt grp (JObj []) =
     Inr (lit ''# Time-Based Report'' @ NL @ NL @
          lit ''**Period**: N/A '' @ [8212] @ lit '' N/A'' @ NL @
          lit ''**Grouping**: '' @ MetrikaGroupType_value grp @ NL)"
  by (simp add: format_campaigns_markdown_def format_ads_markdown_def format_adgroups_markdown_def
      format_keywords_markdown_def format_metrika_counters_markdown_def format_list_def
      format_metrika_report_markdown_def report_head_def report_rows_def time_report_def
      py_get_def fget_def bindE_def NA_def py_str_def lit_def)

text \<open>
  The analytics report formatter on an empty report: the result is a header-only body,
  not a sentence of the form "No ... found.".
\<close>

theorem format_metrika_report_empty_counterexample:
  "format_metrika_report_markdown sample_rt (JObj []) =
     Inr (lit ''# Metrika Report'' @ [10, 10] @ lit ''## Query Parameters'' @ [10] @
          lit ''- **Period**: N/A '' @ [8212] @ lit '' N/A'' @ [10]) \<and>
   format_metrika_report_markdown sample_rt (JObj []) \<noteq> Inr (lit ''No data found.'') \<and>
   \<not> prefix (lit ''No '') (lit ''# Metrika Report'' @ [10, 10] @ lit ''## Query Parameters'' @ [10] @
          lit ''- **Period**: N/A '' @ [8212] @ lit '' N/A'' @ [10])"
  by (simp add: format_metrika_report_markdown_def report_head_def report_rows_def py_get_def fget_def
      bindE_def NA_def NL_def py_str_def lit_def)

section \<open>Statistics rows\<close>

lemma split_on_not_Nil [simp]: "split_on c s \<noteq> []"
  by (induction s) (auto split: list.splits)














lemma int_str_1: "int_str 1 = lit ''1''"
  by (simp add: int_str_def nat_digits.simps lit_def)







section \<open>Batch summaries\<close>

lemma mapE_Inr: "(\<And>x. x \<in> set xs \<Longrightarrow> f x = Inr (g x)) \<Longrightarrow> mapE f xs = Inr (map g xs)"
  by (induction xs) (simp_all add: bindE_def)

lemma strict_success_vendor_item:
  assumes "\<forall>i. x = Inl i \<longrightarrow> i \<noteq> 0"
  shows "strict_success (vendor_item x) = Inr (case x of Inl i \<Rightarrow> [JInt i] | Inr m \<Rightarrow> [])"
  using assms
  by (cases x) (simp_all add: strict_success_def vendor_item_def py_get_def py_getitem_def bindE_def)

lemma item_errors_vendor_item:
  "item_errors rt (vendor_item x) =
     Inr (case x of Inl i \<Rightarrow> [] | Inr m \<Rightarrow> [lit ''ID ?: '' @ m])"
  by (cases x)
    (simp_all add: item_errors_def vendor_item_def py_get_def py_getitem_def py_iter_def fget_def
      py_str_def bindE_def lit_def)

lemma length_concat_successes:
  "length (concat (map (\<lambda>x. case x of Inl i \<Rightarrow> [JInt i] | Inr m \<Rightarrow> []) items)) = length (filter isl items)"
  by (induction items) (auto split: sum.splits)

lemma length_concat_errors:
  "length (concat (map (\<lambda>x. case x of Inl i \<Rightarrow> [] | Inr m \<Rightarrow> [f m]) items)) =
     length items - length (filter isl items)"
proof (induction items)
  case Nil
  then show ?case by simp
next
  case (Cons x xs)
  have le: "length (filter isl xs) \<le> length xs"
    by simp
  show ?case
    using Cons le by (cases x) (auto simp add: Suc_diff_le)
qed

text \<open>
  The rendering shared by the operations that itemize errors: for N vendor items of
  which K carry an Id and the other N - K carry one error each, it is the summary with
  the count K, followed by an error block of N - K entries when there is one.
\<close>

lemma render_itemized_counts:
  assumes "\<forall>i. Inl i \<in> set items \<longrightarrow> i \<noteq> 0"
  shows "\<exists>errors. render_itemized rt pre post (JArr (map vendor_item items)) =
            Inr (pre @ int_str (int (length (filter isl items))) @ post @ errors_block errors) \<and>
          length errors = length items - length (filter isl items)"
proof -
  have s: "mapE strict_success (map vendor_item items) =
             Inr (map (\<lambda>x. case x of Inl i \<Rightarrow> [JInt i] | Inr m \<Rightarrow> []) items)"
    using assms
    by (induction items) (auto simp add: bindE_def strict_success_vendor_item)
  have e: "mapE (item_errors rt) (map vendor_item items) =
             Inr (map (\<lambda>x. case x of Inl i \<Rightarrow> [] | Inr m \<Rightarrow> [lit ''ID ?: '' @ m]) items)"
    by (induction items) (auto simp add: bindE_def item_errors_vendor_item)
  show ?thesis
    by (rule exI [where x = "concat (map (\<lambda>x. case x of Inl i \<Rightarrow> [] | Inr m \<Rightarrow> [lit ''ID ?: '' @ m]) items)"])
      (simp add: render_itemized_def py_iter_def bindE_def s e length_concat_successes
        length_concat_errors)
qed

text \<open>
  Claim C1 at a concrete batch. The vendor answers a batch of two ads with one success
  (Id 1) and one per-item error ("Object not found"): N = 2, K = 1. The deletion of ads
  returns the count 1 and one itemized error line. The suspension and the resumption of
  ads return the count 1 and no error line at all.
\<close>

theorem direct_suspend_ads_drops_errors:
  "fst (direct_delete_ads sample_rt
          (\<lambda>rq. Responded (vendor_reply (lit ''DeleteResults'') [Inl 1, Inr (lit ''Object not found'')]))
          \<lparr>ad_ids = [1, 2]\<rparr> sample_world)
     = lit ''Successfully deleted 1 ad(s).'' @ NL @ NL @ lit ''Errors:'' @ NL @
       lit ''- ID ?: Object not found'' \<and>
   fst (direct_suspend_ads sample_rt
          (\<lambda>rq. Responded (vendor_reply (lit ''SuspendResults'') [Inl 1, Inr (lit ''Object not found'')]))
          \<lparr>ad_ids = [1, 2]\<rparr> sample_world)
     = lit ''Successfully suspended 1 ad(s).'' \<and>
   fst (direct_resume_ads sample_rt
          (\<lambda>rq. Responded (vendor_reply (lit ''ResumeResults'') [Inl 1, Inr (lit ''Object not found'')]))
          \<lparr>ad_ids = [1, 2]\<rparr> sample_world)
     = lit ''Successfully resumed 1 ad(s).''"
  by (simp add: direct_delete_ads_def direct_suspend_ads_def direct_resume_ads_def direct_call_def
      direct_request_def send_def sample_world_def get_direct_token_def Let_def raise_for_status_def
      response_json_def vendor_reply_def vendor_item_def result_list_def render_itemized_def
      render_count_def strict_success_def item_errors_def errors_block_def py_get_def py_getitem_def
      py_iter_def fget_def py_str_def bindE_def int_str_1 NL_def lit_def)

section \<open>Missing tokens\<close>

lemma direct_request_no_token:
  "get_direct_token (api_client w) = [] \<Longrightarrow>
     direct_request net service method params v w =
       (Inl (ValueError (lit ''Yandex Direct API token not configured. '' @
                         lit ''Set YANDEX_DIRECT_TOKEN or YANDEX_TOKEN environment variable.'')), w)"
  by (simp add: direct_request_def Let_def)

lemma metrika_request_no_token:
  "get_metrika_token (api_client w) = [] \<Longrightarrow>
     metrika_request net endpoint method params data w =
       (Inl (ValueError (lit ''Yandex Metrika API token not configured. '' @
                         lit ''Set YANDEX_METRIKA_TOKEN or YANDEX_TOKEN environment variable.'')), w)"
  by (simp add: metrika_request_def Let_def)

lemma handle_api_error_ValueError:
  "handle_api_error rt (ValueError msg) = lit ''Configuration Error: '' @ msg"
  by (simp add: handle_api_error_def)

lemma direct_call_no_token:
  "get_direct_token (api_client w) = [] \<Longrightarrow>
     direct_call rt net service method params v render w =
       (lit ''Configuration Error: '' @
          (lit ''Yandex Direct API token not configured. '' @
           lit ''Set YANDEX_DIRECT_TOKEN or YANDEX_TOKEN environment variable.''), w)"
  by (simp add: direct_call_def direct_request_no_token handle_api_error_ValueError)

lemma metrika_call_no_token:
  "get_metrika_token (api_client w) = [] \<Longrightarrow>
     metrika_call rt net endpoint method params data render w =
       (lit ''Configuration Error: '' @
          (lit ''Yandex Metrika API token not configured. '' @
           lit ''Set YANDEX_METRIKA_TOKEN or YANDEX_TOKEN environment variable.''), w)"
  by (simp add: metrika_call_def metrika_request_no_token handle_api_error_ValueError)

text \<open>
  Claim C2, as the code has it. When the token a tool needs is absent (the service token
  and the unified token are both empty), the call leaves the world as it was, so no
  request is sent; and whenever the call gets as far as the client, the result is a
  string that begins with "Configuration Error: ".
\<close>

theorem missing_token_configuration_error:
  assumes "required_token c (api_client w) = []"
  shows "snd (run_tool rt net c w) = w \<and>
         (reaches_client rt c \<longrightarrow>
            (\<exists>msg. fst (run_tool rt net c w) = Some (lit ''Configuration Error: '' @ msg)))"
proof (cases c)
  case (DirectUpdateCampaign p)
  then show ?thesis
    using assms
    by (cases "campaign_update rt p")
      (simp_all add: required_token_def returns_str_def direct_update_campaign_def
        direct_call_no_token succeeds_def)
next
  case (DirectAddKeywords p)
  then show ?thesis
    using assms
    by (cases "keywords_list rt p")
      (simp_all add: required_token_def returns_str_def direct_add_keywords_def
        direct_call_no_token succeeds_def)
next
  case (DirectSetKeywordBids p)
  then show ?thesis
    using assms
    by (cases "mapE (bid_item rt) (keyword_bids p)")
      (simp_all add: required_token_def returns_str_def direct_set_keyword_bids_def
        direct_call_no_token succeeds_def)
next
  case (DirectUpdateAd p)
  then show ?thesis
    using assms
    by (auto simp add: required_token_def returns_str_def direct_update_ad_def Let_def
        direct_request_no_token handle_api_error_ValueError)
next
  case (DirectGetStatistics p)
  then show ?thesis
    using assms
    by (simp add: required_token_def direct_get_statistics_def Let_def handle_api_error_ValueError)
qed (use assms in \<open>simp_all add: required_token_def returns_str_def Let_def
      direct_get_campaigns_def direct_suspend_campaigns_def direct_resume_campaigns_def
      direct_archive_campaigns_def direct_unarchive_campaigns_def direct_delete_campaigns_def
      direct_get_adgroups_def direct_create_adgroup_def direct_get_ads_def direct_create_text_ad_def
      direct_moderate_ads_def direct_suspend_ads_def direct_resume_ads_def direct_get_keywords_def
      direct_update_adgroup_def direct_delete_keywords_def direct_delete_ads_def
      direct_archive_ads_def direct_unarchive_ads_def
      metrika_get_counters_def metrika_get_counter_def metrika_create_counter_def
      metrika_get_goals_def metrika_create_goal_def metrika_get_report_def
      metrika_get_report_by_time_def metrika_delete_counter_def
      direct_call_no_token metrika_call_no_token metrika_request_no_token
      handle_api_error_ValueError\<close>)

text \<open>A world without any token, to evaluate the operations where the token is absent.\<close>

theorem missing_token_configuration_error_witness:
  "snd (run_tool sample_rt (\<lambda>rq. Failed TimeoutException) (DirectSuspendCampaigns \<lparr>campaign_ids = [1]\<rparr>)
          (sample_world\<lparr>api_client := (api_client sample_world)\<lparr>direct_token := []\<rparr>\<rparr>))
     = sample_world\<lparr>api_client := (api_client sample_world)\<lparr>direct_token := []\<rparr>\<rparr> \<and>
   (\<exists>msg. fst (run_tool sample_rt (\<lambda>rq. Failed TimeoutException)
                  (DirectSuspendCampaigns \<lparr>campaign_ids = [1]\<rparr>)
                  (sample_world\<lparr>api_client := (api_client sample_world)\<lparr>direct_token := []\<rparr>\<rparr>))
            = Some (lit ''Configuration Error: '' @ msg))"
proof -
  have h: "required_token (DirectSuspendCampaigns \<lparr>campaign_ids = [1]\<rparr>)
             (api_client (sample_world\<lparr>api_client := (api_client sample_world)\<lparr>direct_token := []\<rparr>\<rparr>)) = []"
    by (simp add: required_token_def sample_world_def get_direct_token_def)
  show ?thesis
    using missing_token_configuration_error [OF h, of sample_rt "\<lambda>rq. Failed TimeoutException"]
    by simp
qed

text \<open>
  The claim as worded covers every operation. The text-ad update called without any
  field and without any token returns "No fields specified for update.", which does not
  begin with "Configuration Error: ".
\<close>

theorem update_ad_without_token_counterexample:
  "required_token (DirectUpdateAd \<lparr>ad_id = 7, title = None, title2 = None, text' = None, href = None\<rparr>)
     (api_client (sample_world\<lparr>api_client := (api_client sample_world)\<lparr>direct_token := []\<rparr>\<rparr>)) = [] \<and>
   fst (run_tool sample_rt (\<lambda>rq. Failed TimeoutException)
          (DirectUpdateAd \<lparr>ad_id = 7, title = None, title2 = None, text' = None, href = None\<rparr>)
          (sample_world\<lparr>api_client := (api_client sample_world)\<lparr>direct_token := []\<rparr>\<rparr>))
     = Some (lit ''No fields specified for update.'') \<and>
   \<not> prefix (lit ''Configuration Error: '') (lit ''No fields specified for update.'')"
  by (simp add: required_token_def sample_world_def get_direct_token_def returns_str_def
      direct_update_ad_def given_def lit_def)

end
